theory Spec2Isabelle
  imports Complex_Main "HOL-Library.Word" "HOL-Library.Monad_Syntax"
begin

section \<open>Numbers of the runtime\<close>

text \<open>
  The samples of a decoded buffer are the elements of a \<open>Float32Array\<close>: a finite
  value, a NaN or an infinity. A finite value is modelled by the real number it denotes.
  The scaling factors are 32768 (a power of two) and 32767 (15 bits), and a 32-bit float
  has a 24-bit significand, so the product of a sample of magnitude at most 1 with either
  factor is computed exactly in the runtime's double precision: real arithmetic gives the
  same value. Negative zero behaves as zero in every operation used here.
\<close>

datatype number = Num real | NaN | PosInf | NegInf

text \<open>\<open>Math.min(a, s)\<close> and \<open>Math.max(a, s)\<close> for a finite first argument.\<close>

fun Math_min :: "real \<Rightarrow> number \<Rightarrow> number" where
  "Math_min a (Num x) = Num (min a x)"
| "Math_min a NaN = NaN"
| "Math_min a PosInf = Num a"
| "Math_min a NegInf = NegInf"

fun Math_max :: "real \<Rightarrow> number \<Rightarrow> number" where
  "Math_max a (Num x) = Num (max a x)"
| "Math_max a NaN = NaN"
| "Math_max a PosInf = PosInf"
| "Math_max a NegInf = Num a"

text \<open>\<open>s < 0\<close>: a comparison with NaN is false.\<close>

fun lt_zero :: "number \<Rightarrow> bool" where
  "lt_zero (Num x) = (x < 0)"
| "lt_zero NaN = False"
| "lt_zero PosInf = False"
| "lt_zero NegInf = True"

text \<open>\<open>s * c\<close> for a finite constant \<open>c\<close>.\<close>

fun times_const :: "number \<Rightarrow> real \<Rightarrow> number" where
  "times_const (Num x) c = Num (x * c)"
| "times_const NaN c = NaN"
| "times_const PosInf c = (if 0 < c then PosInf else if c < 0 then NegInf else NaN)"
| "times_const NegInf c = (if 0 < c then NegInf else if c < 0 then PosInf else NaN)"

text \<open>Truncation towards zero, the first step of every integer conversion.\<close>

definition toIntegerOrInfinity :: "real \<Rightarrow> int" where
  "toIntegerOrInfinity x = (if x < 0 then \<lceil>x\<rceil> else \<lfloor>x\<rfloor>)"

text \<open>
  \<open>ToInt16\<close>, applied by \<open>DataView.setInt16\<close> and by a store into an
  \<open>Int16Array\<close>: NaN and the infinities become 0, a finite value is truncated and
  reduced modulo \<open>2^16\<close> into the signed range.
\<close>

fun toInt16 :: "number \<Rightarrow> int" where
  "toInt16 (Num x) =
     (let m = toIntegerOrInfinity x mod 65536 in if 32768 \<le> m then m - 65536 else m)"
| "toInt16 NaN = 0"
| "toInt16 PosInf = 0"
| "toInt16 NegInf = 0"

text \<open>
  The conversion of one sample, written twice in the source (in \<open>createWavBuffer\<close>
  and in \<open>convertToFlac\<close>):
  \<^verbatim>\<open>sample = Math.max(-1, Math.min(1, s));
  sample = (sample < 0) ? sample * 0x8000 : sample * 0x7FFF;\<close>
\<close>

definition clampSample :: "number \<Rightarrow> number" where
  "clampSample s = Math_max (-1) (Math_min 1 s)"

definition scaleSample :: "number \<Rightarrow> number" where
  "scaleSample sample = (if lt_zero sample then times_const sample 32768 else times_const sample 32767)"

definition float32ToInt16 :: "number \<Rightarrow> int" where
  "float32ToInt16 s = toInt16 (scaleSample (clampSample s))"

section \<open>ArrayBuffer and DataView\<close>

type_synonym byte = "8 word"
type_synonym arrayBuffer = "byte list"

text \<open>
  A write of \<open>bs\<close> at \<open>byteOffset\<close> through a \<open>DataView\<close>: a RangeError
  (\<open>None\<close>) when the bytes do not fit into the buffer.
\<close>

definition view_set :: "nat \<Rightarrow> byte list \<Rightarrow> arrayBuffer \<Rightarrow> arrayBuffer option" where
  "view_set byteOffset bs view =
     (if byteOffset + length bs \<le> length view
      then Some (take byteOffset view @ bs @ drop (byteOffset + length bs) view)
      else None)"

text \<open>Little-endian bytes of an unsigned and of a signed value.\<close>

definition le16 :: "nat \<Rightarrow> byte list" where
  "le16 v = [word_of_nat v, word_of_nat (v div 256)]"

definition le32 :: "nat \<Rightarrow> byte list" where
  "le32 v = [word_of_nat v, word_of_nat (v div 256), word_of_nat (v div 65536),
             word_of_nat (v div 16777216)]"

definition le16s :: "int \<Rightarrow> byte list" where
  "le16s v = [word_of_int v, word_of_int (v div 256)]"

text \<open>
  \<open>view.setUint16(pos, data, true)\<close>, \<open>view.setUint32(pos, data, true)\<close> and
  \<open>view.setInt16(pos, data, true)\<close>. The unsigned writers are only called with
  non-negative integers; \<open>ToUint16\<close> and \<open>ToUint32\<close> reduce them modulo the
  width of the field.
\<close>

definition view_setUint16 :: "nat \<Rightarrow> nat \<Rightarrow> arrayBuffer \<Rightarrow> arrayBuffer option" where
  "view_setUint16 byteOffset data view = view_set byteOffset (le16 (data mod 2 ^ 16)) view"

definition view_setUint32 :: "nat \<Rightarrow> nat \<Rightarrow> arrayBuffer \<Rightarrow> arrayBuffer option" where
  "view_setUint32 byteOffset data view = view_set byteOffset (le32 (data mod 2 ^ 32)) view"

definition view_setInt16 :: "nat \<Rightarrow> number \<Rightarrow> arrayBuffer \<Rightarrow> arrayBuffer option" where
  "view_setInt16 byteOffset data view = view_set byteOffset (le16s (toInt16 data)) view"

text \<open>The readers a WAV parser uses on the result.\<close>

definition view_getUint16 :: "nat \<Rightarrow> arrayBuffer \<Rightarrow> nat" where
  "view_getUint16 byteOffset view = unat (view ! byteOffset) + 256 * unat (view ! (byteOffset + 1))"

definition view_getUint32 :: "nat \<Rightarrow> arrayBuffer \<Rightarrow> nat" where
  "view_getUint32 byteOffset view =
     unat (view ! byteOffset) + 256 * unat (view ! (byteOffset + 1))
     + 65536 * unat (view ! (byteOffset + 2)) + 16777216 * unat (view ! (byteOffset + 3))"

definition view_getInt16 :: "nat \<Rightarrow> arrayBuffer \<Rightarrow> int" where
  "view_getInt16 byteOffset view =
     (let u = int (view_getUint16 byteOffset view) in if 32768 \<le> u then u - 65536 else u)"

section \<open>The decoded buffer and the WAV writer\<close>

text \<open>
  An \<open>AudioBuffer\<close>. \<open>getChannelData i\<close> is the \<open>Float32Array\<close> of channel
  \<open>i\<close>, which has \<open>length\<close> elements for every \<open>i\<close> below
  \<open>numberOfChannels\<close>; the code reads no other index, so the channel data is a
  function of the channel and the frame. \<open>sampleRate\<close> is the rate of the default
  \<open>AudioContext\<close> the buffer was decoded for, a whole number of hertz.
\<close>

record audioBuffer =
  numberOfChannels :: nat
  length_ab :: nat
  sampleRate :: nat
  getChannelData :: "nat \<Rightarrow> nat \<Rightarrow> number"

text \<open>
  The helpers \<open>setUint16\<close> and \<open>setUint32\<close> local to \<open>createWavBuffer\<close>:
  they write at the shared variable \<open>pos\<close> and advance it. The state is the pair of
  the view's bytes and \<open>pos\<close>.
\<close>

definition setUint16 :: "nat \<Rightarrow> arrayBuffer \<times> nat \<Rightarrow> (arrayBuffer \<times> nat) option" where
  "setUint16 data s = (case s of (view, pos) \<Rightarrow>
     do { view' \<leftarrow> view_setUint16 pos data view; Some (view', pos + 2) })"

definition setUint32 :: "nat \<Rightarrow> arrayBuffer \<times> nat \<Rightarrow> (arrayBuffer \<times> nat) option" where
  "setUint32 data s = (case s of (view, pos) \<Rightarrow>
     do { view' \<leftarrow> view_setUint32 pos data view; Some (view', pos + 4) })"

text \<open>
  The inner loop \<open>for (let i = 0; i < numOfChan; i++)\<close> of the data section, on the
  view and \<open>offset\<close>, at frame \<open>pos\<close>.
\<close>

function writeChannels ::
  "audioBuffer \<Rightarrow> nat \<Rightarrow> nat \<Rightarrow> nat \<Rightarrow> arrayBuffer \<times> nat \<Rightarrow> (arrayBuffer \<times> nat) option" where
  "writeChannels audioBuffer numOfChan pos i s =
     (if i < numOfChan
      then do {
        view' \<leftarrow> view_setInt16 (44 + snd s)
                   (scaleSample (clampSample (getChannelData audioBuffer i pos))) (fst s);
        writeChannels audioBuffer numOfChan pos (i + 1) (view', snd s + 2)
      }
      else Some s)"
  by pat_completeness auto
termination
  by (relation "measure (\<lambda>(audioBuffer, numOfChan, pos, i, s). numOfChan - i)") auto

text \<open>The outer loop \<open>while (pos < audioBuffer.length)\<close>.\<close>

function writeFrames ::
  "audioBuffer \<Rightarrow> nat \<Rightarrow> nat \<Rightarrow> arrayBuffer \<times> nat \<Rightarrow> arrayBuffer option" where
  "writeFrames audioBuffer numOfChan pos s =
     (if pos < length_ab audioBuffer
      then do {
        s' \<leftarrow> writeChannels audioBuffer numOfChan pos 0 s;
        writeFrames audioBuffer numOfChan (pos + 1) s'
      }
      else Some (fst s))"
  by pat_completeness auto
termination
  by (relation "measure (\<lambda>(audioBuffer, numOfChan, pos, s). length_ab audioBuffer - pos)") auto

declare writeChannels.simps [simp del]
declare writeFrames.simps [simp del]

text \<open>
  \<open>createWavBuffer\<close>. The header is written through \<open>setUint16\<close> and
  \<open>setUint32\<close>, which advance \<open>pos\<close>; the data loop then runs on the same
  \<open>pos\<close>, with \<open>offset\<close> starting at 0.
\<close>

definition createWavBuffer :: "audioBuffer \<Rightarrow> arrayBuffer option" where
  "createWavBuffer audioBuffer =
     (let numOfChan = numberOfChannels audioBuffer;
          len = length_ab audioBuffer * numOfChan * 2;
          buffer = replicate (44 + len) (0 :: byte)
      in do {
        s \<leftarrow> setUint32 0x46464952 (buffer, 0);
        s \<leftarrow> setUint32 (36 + len) s;
        s \<leftarrow> setUint32 0x45564157 s;
        s \<leftarrow> setUint32 0x20746d66 s;
        s \<leftarrow> setUint32 16 s;
        s \<leftarrow> setUint16 1 s;
        s \<leftarrow> setUint16 numOfChan s;
        s \<leftarrow> setUint32 (sampleRate audioBuffer) s;
        s \<leftarrow> setUint32 (sampleRate audioBuffer * 2 * numOfChan) s;
        s \<leftarrow> setUint16 (numOfChan * 2) s;
        s \<leftarrow> setUint16 16 s;
        s \<leftarrow> setUint32 0x61746164 s;
        s \<leftarrow> setUint32 len s;
        writeFrames audioBuffer numOfChan (snd s) (fst s, 0)
      })"

section \<open>Blobs, errors and the browser\<close>

text \<open>
  A \<open>Blob\<close> is its bytes and its MIME type; \<open>new Blob(chunks, {type})\<close>
  concatenates the chunks. An exception carries a name and a message.
\<close>

record blob =
  blob_bytes :: "byte list"
  blob_type :: string

definition newBlob :: "blob list \<Rightarrow> string \<Rightarrow> blob" where
  "newBlob chunks type = \<lparr>blob_bytes = concat (map blob_bytes chunks), blob_type = type\<rparr>"

datatype js_error = JsError (err_name: string) (err_message: string)

text \<open>
  A media stream is its tracks. A \<open>MediaRecorder\<close> is its state, the MIME type it was
  constructed with and its stream.
\<close>

record mediaStream =
  audioTracks :: "nat list"
  videoTracks :: "nat list"

datatype recorder_state = inactive | recording | paused

record mediaRecorder =
  rec_state :: recorder_state
  rec_mimeType :: string
  rec_stream :: mediaStream

text \<open>
  The encoder library, when \<open>window.Flac\<close> exists. \<open>create_libflac_encoder\<close> is
  \<open>None\<close> when that property is not a function. The calls after it may throw; the
  chunks are what the library hands to the encode callback during the call.
\<close>

record flac_library =
  create_libflac_encoder :: "(nat \<Rightarrow> nat \<Rightarrow> nat \<Rightarrow> nat \<Rightarrow> nat \<Rightarrow> bool \<Rightarrow> js_error + nat) option"
  setEncodeCallback :: "nat \<Rightarrow> js_error option"
  FLAC__stream_encoder_process_interleaved :: "nat \<Rightarrow> int list \<Rightarrow> nat \<Rightarrow> js_error + byte list list"
  FLAC__stream_encoder_finish :: "nat \<Rightarrow> js_error + byte list list"
  FLAC__stream_encoder_delete :: "nat \<Rightarrow> js_error option"

text \<open>What the page observes while \<open>loadFlacEncoder\<close> runs.\<close>

datatype script_event = onload | onerror

datatype init_signal = Ready | InitError string | Silent

record loader =
  Flac_before :: bool
  primary_script :: script_event
  Flac_after_primary :: bool
  onready_is_function :: bool
  init_called :: init_signal
  backup_script :: script_event
  Flac_after_backup :: bool

text \<open>
  The browser: everything the component calls and does not define. A field named
  \<open>..._error\<close> is the exception the call throws, if any.
\<close>

record browser =
  loader_events :: loader
  window_Flac :: "flac_library option"
  isTypeSupported :: "string \<Rightarrow> bool"
  getUserMedia :: "js_error + mediaStream"
  videoRef_current :: bool
  audioContext_error :: "js_error option"
  arrayBuffer_error :: "blob \<Rightarrow> js_error option"
  decodeAudioData :: "byte list \<Rightarrow> js_error + audioBuffer"
  recorder_constructor_error :: "mediaStream \<Rightarrow> string \<Rightarrow> js_error option"
  recorder_start_error :: "mediaRecorder \<Rightarrow> js_error option"
  recorder_stop_error :: "mediaRecorder \<Rightarrow> js_error option"

text \<open>\<open>blob.arrayBuffer()\<close>: the bytes of the blob, or a rejection.\<close>

definition arrayBuffer :: "browser \<Rightarrow> blob \<Rightarrow> js_error + byte list" where
  "arrayBuffer env b = (case arrayBuffer_error env b of Some e \<Rightarrow> Inl e | None \<Rightarrow> Inr (blob_bytes b))"

text \<open>
  \<open>new MediaRecorder(stream, {mimeType})\<close>: an inactive recorder, or an exception.
\<close>

definition newMediaRecorder :: "browser \<Rightarrow> mediaStream \<Rightarrow> string \<Rightarrow> js_error + mediaRecorder" where
  "newMediaRecorder env stream mimeType =
     (case recorder_constructor_error env stream mimeType of
        Some e \<Rightarrow> Inl e
      | None \<Rightarrow> Inr \<lparr>rec_state = inactive, rec_mimeType = mimeType, rec_stream = stream\<rparr>)"

section \<open>The encoder bootstrap\<close>

text \<open>
  The promise of \<open>loadFlacEncoder\<close>: resolved, rejected, or never settled (the loader
  installs \<open>Flac.onready\<close> and \<open>Flac.onerror\<close> and the library calls neither).
\<close>

datatype settled = Resolved | Rejected js_error | Pending

definition loadFlacEncoder :: "loader \<Rightarrow> settled" where
  "loadFlacEncoder l =
     (if Flac_before l then Resolved
      else case primary_script l of
        onload \<Rightarrow>
          (if Flac_after_primary l
           then (if onready_is_function l
                 then (case init_called l of
                         Ready \<Rightarrow> Resolved
                       | InitError err \<Rightarrow>
                           Rejected (JsError ''Error'' (''Failed to initialize FLAC encoder: '' @ err))
                       | Silent \<Rightarrow> Pending)
                 else Resolved)
           else Rejected (JsError ''Error'' ''FLAC library loaded but Flac object not found''))
      | onerror \<Rightarrow>
          (case backup_script l of
             onload \<Rightarrow>
               (if Flac_after_backup l then Resolved
                else Rejected (JsError ''Error''
                       ''Failed to load FLAC encoder library from backup source''))
           | onerror \<Rightarrow>
               Rejected (JsError ''Error'' ''Failed to load FLAC encoder from all sources'')))"

section \<open>The component\<close>

text \<open>
  The state of \<open>CameraRecorder\<close>: its \<open>useState\<close> values and the \<open>current\<close>
  values of its refs. An object URL is modelled by the blob it designates. The handlers
  below read the state they are given; the state values they close over
  (\<open>videoMimeType\<close>, \<open>audioMimeType\<close>, \<open>flacLoaded\<close>) are written by
  \<open>setupCamera\<close> only.
\<close>

record state =
  isRecording :: bool
  videoRecorded :: bool
  audioRecorded :: bool
  errorMessage :: string
  flacLoaded :: bool
  isUsingFallbackAudio :: bool
  srcObject :: "mediaStream option"
  mediaRecorderRef :: "mediaRecorder option"
  audioRecorderRef :: "mediaRecorder option"
  videoChunksRef :: "blob list"
  audioChunksRef :: "blob list"
  streamRef :: "mediaStream option"
  videoURL :: "blob option"
  audioURL :: "blob option"
  videoMimeType :: string
  audioMimeType :: string
  isConverting :: bool

definition initial_state :: state where
  "initial_state =
     \<lparr>isRecording = False, videoRecorded = False, audioRecorded = False, errorMessage = '''',
      flacLoaded = False, isUsingFallbackAudio = False, srcObject = None,
      mediaRecorderRef = None, audioRecorderRef = None, videoChunksRef = [],
      audioChunksRef = [], streamRef = None, videoURL = None, audioURL = None,
      videoMimeType = ''video/webm'', audioMimeType = ''audio/webm'', isConverting = False\<rparr>"

subsection \<open>Fallback WAV and MP4 relabelling\<close>

definition createWavFromAudio :: "browser \<Rightarrow> blob \<Rightarrow> js_error + blob" where
  "createWavFromAudio env audioBlob =
     (case audioContext_error env of
        Some e \<Rightarrow> Inl e
      | None \<Rightarrow>
          (case arrayBuffer env audioBlob of
             Inl e \<Rightarrow> Inl e
           | Inr bytes \<Rightarrow>
               (case decodeAudioData env bytes of
                  Inl e \<Rightarrow> Inl e
                | Inr audioBuffer \<Rightarrow>
                    (case createWavBuffer audioBuffer of
                       None \<Rightarrow> Inl (JsError ''RangeError'' ''Offset is outside the bounds of the DataView'')
                     | Some wavBuffer \<Rightarrow> Inr \<lparr>blob_bytes = wavBuffer, blob_type = ''audio/wav''\<rparr>))))"

definition convertToMp4 :: "browser \<Rightarrow> blob \<Rightarrow> js_error + blob" where
  "convertToMp4 env videoBlob =
     (case arrayBuffer env videoBlob of
        Inl e \<Rightarrow> Inl e
      | Inr bytes \<Rightarrow> Inr \<lparr>blob_bytes = bytes, blob_type = ''video/mp4''\<rparr>)"

subsection \<open>convertToFlac\<close>

text \<open>
  The interleaving loops of \<open>convertToFlac\<close>: channels outside, frames inside, into
  an \<open>Int16Array\<close> of \<open>length * numChannels\<close> zeros.
\<close>

definition interleave :: "audioBuffer \<Rightarrow> int list" where
  "interleave audioBuffer =
     (let numChannels = numberOfChannels audioBuffer;
          len = length_ab audioBuffer
      in foldl (\<lambda>sampleData channel.
           foldl (\<lambda>sampleData i.
               sampleData[i * numChannels + channel :=
                 float32ToInt16 (getChannelData audioBuffer channel i)])
             sampleData [0..<len])
         (replicate (len * numChannels) 0) [0..<numChannels])"

text \<open>
  The body of the \<open>try\<close> block of \<open>convertToFlac\<close>. \<open>Inl e\<close>: the body threw
  \<open>e\<close>. \<open>Inr (st', r)\<close>: it returned, with the state after its setter calls and the
  outcome \<open>r\<close> of the promise it returned. A \<open>return createWavFromAudio(audioBlob)\<close>
  hands the promise over without awaiting it, so its rejection is not caught here.
\<close>

definition convertToFlac_try :: "browser \<Rightarrow> state \<Rightarrow> blob \<Rightarrow> js_error + (state \<times> (js_error + blob))" where
  "convertToFlac_try env st audioBlob =
     (case window_Flac env of
        None \<Rightarrow> Inr (st\<lparr>isUsingFallbackAudio := True\<rparr>, createWavFromAudio env audioBlob)
      | Some Flac \<Rightarrow>
          if \<not> flacLoaded st
          then Inr (st\<lparr>isUsingFallbackAudio := True\<rparr>, createWavFromAudio env audioBlob)
          else
          (case audioContext_error env of Some e \<Rightarrow> Inl e | None \<Rightarrow>
          (case arrayBuffer env audioBlob of Inl e \<Rightarrow> Inl e | Inr bytes \<Rightarrow>
          (case decodeAudioData env bytes of Inl e \<Rightarrow> Inl e | Inr audioBuffer \<Rightarrow>
            let numChannels = numberOfChannels audioBuffer;
                len = length_ab audioBuffer;
                sampleData = interleave audioBuffer
            in
            (case create_libflac_encoder Flac of
               None \<Rightarrow> Inr (st\<lparr>isUsingFallbackAudio := True\<rparr>, createWavFromAudio env audioBlob)
             | Some create \<Rightarrow>
            (case create (sampleRate audioBuffer) numChannels 16 5 0 True of
               Inl e \<Rightarrow> Inl e
             | Inr flacEncoder \<Rightarrow>
                 if flacEncoder = 0
                 then Inl (JsError ''Error'' ''Failed to create FLAC encoder'')
                 else
                 (case setEncodeCallback Flac flacEncoder of Some e \<Rightarrow> Inl e | None \<Rightarrow>
                 (case FLAC__stream_encoder_process_interleaved Flac flacEncoder sampleData len of
                    Inl e \<Rightarrow> Inl e
                  | Inr processed \<Rightarrow>
                 (case FLAC__stream_encoder_finish Flac flacEncoder of
                    Inl e \<Rightarrow> Inl e
                  | Inr finished \<Rightarrow>
                      let flacChunks = processed @ finished;
                          flacBuffer = concat flacChunks
                      in
                      (case FLAC__stream_encoder_delete Flac flacEncoder of
                         Some e \<Rightarrow> Inl e
                       | None \<Rightarrow>
                           Inr (st, Inr \<lparr>blob_bytes = flacBuffer, blob_type = ''audio/flac''\<rparr>)))))))))))"

definition convertToFlac :: "browser \<Rightarrow> state \<Rightarrow> blob \<Rightarrow> state \<times> (js_error + blob)" where
  "convertToFlac env st audioBlob =
     (case convertToFlac_try env st audioBlob of
        Inr r \<Rightarrow> r
      | Inl error \<Rightarrow> (st\<lparr>isUsingFallbackAudio := True\<rparr>, createWavFromAudio env audioBlob))"

subsection \<open>setupCamera\<close>

text \<open>
  The probing loop \<open>for (const type of types) if (isTypeSupported(type)) { set(type); break; }\<close>
  on the current value of the state variable.
\<close>

fun selectType :: "(string \<Rightarrow> bool) \<Rightarrow> string list \<Rightarrow> string \<Rightarrow> string" where
  "selectType supported [] current = current"
| "selectType supported (type # types) current =
     (if supported type then type else selectType supported types current)"

definition videoTypes :: "string list" where
  "videoTypes = [''video/webm'', ''video/mp4'']"

definition audioTypes :: "string list" where
  "audioTypes = [''audio/webm'', ''audio/ogg'']"

definition mediaErrorMessage :: "js_error \<Rightarrow> string" where
  "mediaErrorMessage err =
     (if err_name err = ''NotAllowedError''
      then ''Permission denied. Please allow camera and microphone access.''
      else if err_name err = ''NotFoundError''
      then ''Camera or microphone not found. Please check your devices.''
      else ''Error accessing media: '' @ err_message err)"

definition setupCamera :: "browser \<Rightarrow> state \<Rightarrow> state" where
  "setupCamera env st =
     (case loadFlacEncoder (loader_events env) of
        Pending \<Rightarrow> st
      | outcome \<Rightarrow>
          let st1 = (case outcome of
                       Resolved \<Rightarrow> st\<lparr>flacLoaded := True\<rparr>
                     | _ \<Rightarrow> st\<lparr>isUsingFallbackAudio := True\<rparr>);
              st2 = st1\<lparr>videoMimeType := selectType (isTypeSupported env) videoTypes (videoMimeType st1)\<rparr>;
              st3 = st2\<lparr>audioMimeType := selectType (isTypeSupported env) audioTypes (audioMimeType st2)\<rparr>
          in (case getUserMedia env of
                Inr stream \<Rightarrow>
                  (if videoRef_current env
                   then st3\<lparr>streamRef := Some stream, srcObject := Some stream\<rparr>
                   else st3\<lparr>streamRef := Some stream\<rparr>)
              | Inl err \<Rightarrow> st3\<lparr>errorMessage := mediaErrorMessage err\<rparr>))"

subsection \<open>startRecording and the recorders' handlers\<close>

text \<open>
  The body of the \<open>try\<close> block of \<open>startRecording\<close>: the state after it, and the
  exception it threw, if any. \<open>start\<close> puts a recorder into the state \<open>recording\<close>.
\<close>

definition startRecording_try :: "browser \<Rightarrow> mediaStream \<Rightarrow> state \<Rightarrow> state \<times> js_error option" where
  "startRecording_try env stream st =
     (case newMediaRecorder env stream (videoMimeType st) of
        Inl e \<Rightarrow> (st, Some e)
      | Inr mediaRecorder \<Rightarrow>
          let st1 = st\<lparr>mediaRecorderRef := Some mediaRecorder\<rparr> in
          (case audioTracks stream of
             [] \<Rightarrow> (st1, Some (JsError ''Error'' ''No audio track found in the stream''))
           | audioTrack # _ \<Rightarrow>
               let audioStream = \<lparr>audioTracks = [audioTrack], videoTracks = []\<rparr> in
               (case newMediaRecorder env audioStream (audioMimeType st) of
                  Inl e \<Rightarrow> (st1, Some e)
                | Inr audioRecorder \<Rightarrow>
                    let st2 = st1\<lparr>audioRecorderRef := Some audioRecorder\<rparr> in
                    (case recorder_start_error env mediaRecorder of
                       Some e \<Rightarrow> (st2, Some e)
                     | None \<Rightarrow>
                         let st3 = st2\<lparr>mediaRecorderRef :=
                                     Some (mediaRecorder\<lparr>rec_state := recording\<rparr>)\<rparr> in
                         (case recorder_start_error env audioRecorder of
                            Some e \<Rightarrow> (st3, Some e)
                          | None \<Rightarrow>
                              (st3\<lparr>audioRecorderRef :=
                                     Some (audioRecorder\<lparr>rec_state := recording\<rparr>),
                                   isRecording := True, errorMessage := ''''\<rparr>, None))))))"

definition startRecording :: "browser \<Rightarrow> state \<Rightarrow> state" where
  "startRecording env st =
     (case streamRef st of
        None \<Rightarrow>
          st\<lparr>errorMessage := ''Camera stream is not available. Please reload and allow access.''\<rparr>
      | Some stream \<Rightarrow>
          (case startRecording_try env stream (st\<lparr>videoChunksRef := [], audioChunksRef := []\<rparr>) of
             (st', None) \<Rightarrow> st'
           | (st', Some err) \<Rightarrow> st'\<lparr>errorMessage := ''Recording error: '' @ err_message err\<rparr>))"

text \<open>\<open>mediaRecorder.ondataavailable\<close> and \<open>audioRecorder.ondataavailable\<close>.\<close>

definition mediaRecorder_ondataavailable :: "blob \<Rightarrow> state \<Rightarrow> state" where
  "mediaRecorder_ondataavailable data st =
     (if 0 < length (blob_bytes data) then st\<lparr>videoChunksRef := videoChunksRef st @ [data]\<rparr> else st)"

definition audioRecorder_ondataavailable :: "blob \<Rightarrow> state \<Rightarrow> state" where
  "audioRecorder_ondataavailable data st =
     (if 0 < length (blob_bytes data) then st\<lparr>audioChunksRef := audioChunksRef st @ [data]\<rparr> else st)"

text \<open>\<open>mediaRecorder.onstop\<close>.\<close>

definition mediaRecorder_onstop :: "browser \<Rightarrow> state \<Rightarrow> state" where
  "mediaRecorder_onstop env st =
     (if 0 < length (videoChunksRef st)
      then
        let st1 = st\<lparr>isConverting := True\<rparr>;
            originalVideoBlob = newBlob (videoChunksRef st) (videoMimeType st)
        in (case (if videoMimeType st = ''video/mp4''
                  then Inr originalVideoBlob
                  else convertToMp4 env originalVideoBlob) of
              Inr finalVideoBlob \<Rightarrow> st1\<lparr>videoURL := Some finalVideoBlob, videoRecorded := True\<rparr>
            | Inl err \<Rightarrow>
                st1\<lparr>errorMessage := ''Failed to convert video to MP4. Using original format.'',
                    videoURL := Some originalVideoBlob, videoRecorded := True\<rparr>)
      else st)"

text \<open>\<open>audioRecorder.onstop\<close>; the \<open>finally\<close> block clears \<open>isConverting\<close>.\<close>

definition audioRecorder_onstop :: "browser \<Rightarrow> state \<Rightarrow> state" where
  "audioRecorder_onstop env st =
     (if 0 < length (audioChunksRef st)
      then
        let st1 = st\<lparr>isConverting := True\<rparr>;
            originalAudioBlob = newBlob (audioChunksRef st) (audioMimeType st)
        in (case convertToFlac env st1 originalAudioBlob of
              (st2, Inr finalAudioBlob) \<Rightarrow>
                st2\<lparr>audioURL := Some finalAudioBlob, audioRecorded := True, isConverting := False\<rparr>
            | (st2, Inl err) \<Rightarrow>
                st2\<lparr>errorMessage := ''Failed to convert audio. Using original format.'',
                    isUsingFallbackAudio := True, audioURL := Some originalAudioBlob,
                    audioRecorded := True, isConverting := False\<rparr>)
      else st)"

subsection \<open>stopRecording\<close>

text \<open>
  \<open>if (ref.current && ref.current.state === "recording") ref.current.stop()\<close> for one
  ref: the ref after it, or the exception \<open>stop\<close> threw. A \<open>stop\<close> that returns
  leaves the recorder inactive.
\<close>

definition stopIfRecording :: "browser \<Rightarrow> mediaRecorder option \<Rightarrow> js_error + mediaRecorder option" where
  "stopIfRecording env r =
     (case r of
        None \<Rightarrow> Inr None
      | Some recorder \<Rightarrow>
          if rec_state recorder = recording
          then (case recorder_stop_error env recorder of
                  Some e \<Rightarrow> Inl e
                | None \<Rightarrow> Inr (Some (recorder\<lparr>rec_state := inactive\<rparr>)))
          else Inr (Some recorder))"

definition stopRecording :: "browser \<Rightarrow> state \<Rightarrow> state" where
  "stopRecording env st =
     (case stopIfRecording env (mediaRecorderRef st) of
        Inl err \<Rightarrow>
          st\<lparr>errorMessage := ''Error stopping recording: '' @ err_message err, isRecording := False\<rparr>
      | Inr mediaRecorder' \<Rightarrow>
          let st1 = st\<lparr>mediaRecorderRef := mediaRecorder'\<rparr> in
          (case stopIfRecording env (audioRecorderRef st1) of
             Inl err \<Rightarrow>
               st1\<lparr>errorMessage := ''Error stopping recording: '' @ err_message err,
                   isRecording := False\<rparr>
           | Inr audioRecorder' \<Rightarrow> st1\<lparr>audioRecorderRef := audioRecorder', isRecording := False\<rparr>))"

section \<open>Notions used to state results\<close>

text \<open>
  The 44 bytes the header writes of \<open>createWavBuffer\<close> leave in the view, and the
  bytes of an ASCII chunk identifier. Both are used to state results only.
\<close>

definition wavHeader :: "audioBuffer \<Rightarrow> byte list" where
  "wavHeader audioBuffer =
     (let numOfChan = numberOfChannels audioBuffer;
          len = length_ab audioBuffer * numOfChan * 2
      in le32 (0x46464952 mod 2 ^ 32) @ le32 ((36 + len) mod 2 ^ 32) @ le32 (0x45564157 mod 2 ^ 32)
         @ le32 (0x20746d66 mod 2 ^ 32) @ le32 (16 mod 2 ^ 32) @ le16 (1 mod 2 ^ 16)
         @ le16 (numOfChan mod 2 ^ 16) @ le32 (sampleRate audioBuffer mod 2 ^ 32)
         @ le32 (sampleRate audioBuffer * 2 * numOfChan mod 2 ^ 32) @ le16 (numOfChan * 2 mod 2 ^ 16)
         @ le16 (16 mod 2 ^ 16) @ le32 (0x61746164 mod 2 ^ 32) @ le32 (len mod 2 ^ 32))"

definition ascii :: "string \<Rightarrow> byte list" where
  "ascii s = map (\<lambda>c. word_of_nat (of_char c)) s"

text \<open>
  The bytes the data loop writes for frame \<open>pos\<close> from channel \<open>i\<close> on, and for all
  frames from \<open>pos\<close> on.
\<close>

definition frameBytes :: "audioBuffer \<Rightarrow> nat \<Rightarrow> nat \<Rightarrow> nat \<Rightarrow> byte list" where
  "frameBytes audioBuffer numOfChan pos i =
     concat (map (\<lambda>channel. le16s (float32ToInt16 (getChannelData audioBuffer channel pos)))
               [i..<numOfChan])"

definition dataBytes :: "audioBuffer \<Rightarrow> nat \<Rightarrow> nat \<Rightarrow> byte list" where
  "dataBytes audioBuffer numOfChan pos =
     concat (map (\<lambda>frame. frameBytes audioBuffer numOfChan frame 0) [pos..<length_ab audioBuffer])"

text \<open>
  A ref holds a recorder that reports the state \<open>recording\<close>; the exception the
  guarded \<open>stop\<close> of \<open>stopRecording\<close> throws for a ref, if it throws.
\<close>

definition activelyRecording :: "mediaRecorder option \<Rightarrow> bool" where
  "activelyRecording r = (case r of None \<Rightarrow> False | Some recorder \<Rightarrow> rec_state recorder = recording)"

definition stopThrows :: "browser \<Rightarrow> mediaRecorder option \<Rightarrow> js_error option" where
  "stopThrows env r =
     (case r of None \<Rightarrow> None
      | Some recorder \<Rightarrow> if rec_state recorder = recording then recorder_stop_error env recorder else None)"

text \<open>
  The conditions under which the audio conversion is to fall back to WAV: the captured
  \<open>flacLoaded\<close> flag is false, \<open>window.Flac\<close> or its
  \<open>create_libflac_encoder\<close> is absent, or the body of the \<open>try\<close> block throws.
\<close>

definition conversionFallsBack :: "browser \<Rightarrow> state \<Rightarrow> blob \<Rightarrow> bool" where
  "conversionFallsBack env st audioBlob =
     (\<not> flacLoaded st
      \<or> (case window_Flac env of None \<Rightarrow> True | Some Flac \<Rightarrow> create_libflac_encoder Flac = None)
      \<or> isl (convertToFlac_try env st audioBlob))"

section \<open>Inputs for the closed instances\<close>

text \<open>
  A one-channel buffer of 45 frames whose first sample is 1 and whose last sample is -1; an
  empty buffer; a browser without the encoder library in which nothing throws; an encoder
  library whose \<open>create_libflac_encoder\<close> returns the handle 0; a recorded chunk; a
  recorder that is recording, and a state holding two of them; two exceptions.
\<close>

definition markedEnds :: audioBuffer where
  "markedEnds = \<lparr>numberOfChannels = 1, length_ab = 45, sampleRate = 8000,
      getChannelData = (\<lambda>c i. if i = 0 then Num 1 else if i = 44 then Num (- 1) else Num 0)\<rparr>"

definition silence :: audioBuffer where
  "silence = \<lparr>numberOfChannels = 1, length_ab = 0, sampleRate = 48000,
               getChannelData = (\<lambda>channel i. Num 0)\<rparr>"

definition plainBrowser :: browser where
  "plainBrowser =
     \<lparr>loader_events =
        \<lparr>Flac_before = False, primary_script = onerror, Flac_after_primary = False,
         onready_is_function = False, init_called = Silent, backup_script = onerror,
         Flac_after_backup = False\<rparr>,
      window_Flac = None,
      isTypeSupported = (\<lambda>type. type = ''video/mp4''),
      getUserMedia = Inr \<lparr>audioTracks = [0], videoTracks = [1]\<rparr>,
      videoRef_current = True,
      audioContext_error = None,
      arrayBuffer_error = (\<lambda>b. None),
      decodeAudioData = (\<lambda>bytes. Inr silence),
      recorder_constructor_error = (\<lambda>stream type. None),
      recorder_start_error = (\<lambda>recorder. None),
      recorder_stop_error = (\<lambda>recorder. None)\<rparr>"

definition zeroHandleFlac :: flac_library where
  "zeroHandleFlac =
     \<lparr>create_libflac_encoder = Some (\<lambda>rate channels bps level total verify. Inr 0),
      setEncodeCallback = (\<lambda>encoder. None),
      FLAC__stream_encoder_process_interleaved = (\<lambda>encoder sampleData len. Inr []),
      FLAC__stream_encoder_finish = (\<lambda>encoder. Inr []),
      FLAC__stream_encoder_delete = (\<lambda>encoder. None)\<rparr>"

definition oneChunk :: "blob list" where
  "oneChunk = [\<lparr>blob_bytes = [1, 2, 3], blob_type = ''''\<rparr>]"

definition activeRecorder :: mediaRecorder where
  "activeRecorder = \<lparr>rec_state = recording, rec_mimeType = ''video/webm'',
                      rec_stream = \<lparr>audioTracks = [0], videoTracks = [1]\<rparr>\<rparr>"

definition recordingState :: state where
  "recordingState = initial_state\<lparr>isRecording := True, mediaRecorderRef := Some activeRecorder,
                       audioRecorderRef := Some activeRecorder\<rparr>"

definition stopFailure :: js_error where
  "stopFailure = JsError ''InvalidStateError'' ''The recorder could not be stopped''"

definition unreadable :: js_error where
  "unreadable = JsError ''NotReadableError'' ''The blob could not be read''"

section \<open>The conversion of a sample\<close>

text \<open>A value in the signed 16-bit range is left alone by the wrap-around of \<open>ToInt16\<close>.\<close>

lemma wrap16:
  assumes "- 32768 \<le> (m::int)" "m \<le> 32767"
  shows "(let r = m mod 65536 in if 32768 \<le> r then r - 65536 else r) = m"
proof (cases "m < 0")
  case True
  have "m mod 65536 = (m + 65536) mod 65536" by simp
  also have "\<dots> = m + 65536" using assms True by (intro mod_pos_pos_trivial) auto
  finally show ?thesis using True assms by (simp add: Let_def)
next
  case False
  then have "m mod 65536 = m" using assms by (intro mod_pos_pos_trivial) auto
  then show ?thesis using assms by (simp add: Let_def)
qed

lemma float32ToInt16_neg:
  assumes "x < 0"
  shows "float32ToInt16 (Num x) = \<lceil>max (-1) x * 32768\<rceil>"
proof -
  let ?y = "max (- 1) x * 32768"
  have a: "- 32768 \<le> ?y" "?y < 0" using assms by (auto simp: max_def)
  have b: "- 32768 \<le> \<lceil>?y\<rceil>" "\<lceil>?y\<rceil> \<le> 0"
    using a by (simp_all add: le_ceiling_iff ceiling_le_iff)
  have c: "min 1 x = x" using assms by simp
  have "float32ToInt16 (Num x) = toInt16 (Num ?y)"
    using assms a by (simp add: float32ToInt16_def clampSample_def scaleSample_def c)
  also have "\<dots> = \<lceil>?y\<rceil>"
    using a(2) wrap16 [of "\<lceil>?y\<rceil>"] b by (simp add: toIntegerOrInfinity_def)
  finally show ?thesis .
qed

lemma float32ToInt16_nonneg:
  assumes "\<not> x < 0"
  shows "float32ToInt16 (Num x) = \<lfloor>min 1 x * 32767\<rfloor>"
proof -
  let ?y = "min 1 x * 32767"
  have a: "0 \<le> ?y" "?y \<le> 32767" using assms by (auto simp: min_def)
  have b: "0 \<le> \<lfloor>?y\<rfloor>" "\<lfloor>?y\<rfloor> \<le> 32767"
    using a by (simp_all add: le_floor_iff floor_le_iff)
  have c: "max (- 1) (min 1 x) = min 1 x" using assms by simp
  have d: "\<not> min 1 x < 0" using assms by simp
  have "float32ToInt16 (Num x) = toInt16 (Num ?y)"
    using d by (simp add: float32ToInt16_def clampSample_def scaleSample_def c)
  also have "\<dots> = \<lfloor>?y\<rfloor>"
    using a(1) wrap16 [of "\<lfloor>?y\<rfloor>"] b by (simp add: toIntegerOrInfinity_def)
  finally show ?thesis .
qed

text \<open>
  C3. The 16-bit quantization of a finite sample (clamp to \<open>[-1, 1]\<close>, scale negative
  values by 32768 and the others by 32767, truncate) is monotone non-decreasing over the
  reals, stays within \<open>[-32768, 32767]\<close>, and saturates exactly: every input at most
  \<open>-1\<close> gives \<open>-32768\<close> and every input at least \<open>1\<close> gives \<open>32767\<close>.
\<close>

theorem float32ToInt16_monotone_bounded_saturating:
  "(x \<le> y \<longrightarrow> float32ToInt16 (Num x) \<le> float32ToInt16 (Num y))
   \<and> - 32768 \<le> float32ToInt16 (Num x) \<and> float32ToInt16 (Num x) \<le> 32767
   \<and> (u \<le> - 1 \<longrightarrow> float32ToInt16 (Num u) = - 32768)
   \<and> (1 \<le> v \<longrightarrow> float32ToInt16 (Num v) = 32767)"
proof -
  have neg_range: "- 32768 \<le> \<lceil>max (- 1) z * 32768\<rceil> \<and> \<lceil>max (- 1) z * 32768\<rceil> \<le> 0"
    if "z < 0" for z :: real
  proof -
    have "- 32768 \<le> max (- 1) z * 32768" "max (- 1) z * 32768 \<le> 0"
      using that by (auto simp: max_def)
    then show ?thesis by (simp add: le_ceiling_iff ceiling_le_iff)
  qed
  have pos_range: "0 \<le> \<lfloor>min 1 z * 32767\<rfloor> \<and> \<lfloor>min 1 z * 32767\<rfloor> \<le> 32767"
    if "\<not> z < 0" for z :: real
  proof -
    have "0 \<le> min 1 z * 32767" "min 1 z * 32767 \<le> 32767"
      using that by (auto simp: min_def)
    then show ?thesis by (simp add: le_floor_iff floor_le_iff)
  qed
  have mono: "float32ToInt16 (Num x) \<le> float32ToInt16 (Num y)" if "x \<le> y"
  proof (cases "x < 0")
    case True
    show ?thesis
    proof (cases "y < 0")
      case yneg: True
      have "max (- 1) x * 32768 \<le> max (- 1) y * 32768" using that by (simp add: max_def)
      then show ?thesis
        by (simp only: float32ToInt16_neg [OF True] float32ToInt16_neg [OF yneg] ceiling_mono)
    next
      case ynn: False
      show ?thesis
        using neg_range [OF True] pos_range [OF ynn]
        unfolding float32ToInt16_neg [OF True] float32ToInt16_nonneg [OF ynn] by linarith
    qed
  next
    case False
    then have ynn: "\<not> y < 0" using that by simp
    have "min 1 x * 32767 \<le> min 1 y * 32767" using that by (simp add: min_def)
    then show ?thesis
      by (simp only: float32ToInt16_nonneg [OF False] float32ToInt16_nonneg [OF ynn] floor_mono)
  qed
  have range: "- 32768 \<le> float32ToInt16 (Num x) \<and> float32ToInt16 (Num x) \<le> 32767"
  proof (cases "x < 0")
    case True
    then show ?thesis using neg_range [OF True] unfolding float32ToInt16_neg [OF True] by linarith
  next
    case False
    then show ?thesis using pos_range [OF False] unfolding float32ToInt16_nonneg [OF False] by linarith
  qed
  have low: "float32ToInt16 (Num u) = - 32768" if "u \<le> - 1"
  proof -
    have "u < 0" using that by simp
    moreover have "max (- 1) u = - 1" using that by simp
    ultimately show ?thesis by (simp add: float32ToInt16_neg)
  qed
  have high: "float32ToInt16 (Num v) = 32767" if "1 \<le> v"
  proof -
    have "\<not> v < 0" using that by simp
    moreover have "min 1 v = 1" using that by simp
    ultimately show ?thesis by (simp add: float32ToInt16_nonneg)
  qed
  show ?thesis using mono range low high by blast
qed

theorem float32ToInt16_witness:
  "float32ToInt16 (Num (- 1 / 2)) \<le> float32ToInt16 (Num (1 / 2))
   \<and> - 32768 \<le> float32ToInt16 (Num (- 1 / 2)) \<and> float32ToInt16 (Num (- 1 / 2)) \<le> 32767
   \<and> float32ToInt16 (Num (- 3 / 2)) = - 32768
   \<and> float32ToInt16 (Num (3 / 2)) = 32767"
  using float32ToInt16_monotone_bounded_saturating [of "- 1 / 2" "1 / 2" "- 3 / 2" "3 / 2"]
  by simp


section \<open>The WAV writer: what it returns\<close>

text \<open>The thirteen header writes, computed.\<close>

lemma replicate44: "replicate 44 (0::byte) =
  [0,0,0,0, 0,0,0,0, 0,0,0,0, 0,0,0,0, 0,0,0,0, 0,0,0,0, 0,0,0,0, 0,0,0,0, 0,0,0,0, 0,0,0,0, 0,0,0,0]"
  by (simp add: numeral_eq_Suc)

lemma createWavBuffer_header:
  "createWavBuffer audioBuffer =
     writeFrames audioBuffer (numberOfChannels audioBuffer) 44
       (wavHeader audioBuffer @ replicate (length_ab audioBuffer * numberOfChannels audioBuffer * 2) 0, 0)"
  unfolding createWavBuffer_def Let_def replicate_add replicate44 wavHeader_def
  by (simp add: setUint32_def setUint16_def view_setUint32_def view_setUint16_def view_set_def
       le32_def le16_def)

lemma unat_byte: "unat (word_of_nat n :: byte) = n mod 256"
  by (simp add: unat_of_nat)

lemma le16_decode:
  assumes "v < 65536"
  shows "v mod 256 + 256 * (v div 256 mod 256) = (v::nat)"
proof -
  have "v div 256 < 256" using assms by (simp add: less_mult_imp_div_less)
  then show ?thesis by simp
qed

lemma le32_decode:
  assumes "v < 4294967296"
  shows "v mod 256 + 256 * (v div 256 mod 256) + 65536 * (v div 65536 mod 256)
           + 16777216 * (v div 16777216 mod 256) = (v::nat)"
proof -
  have a: "v div 16777216 < 256" using assms by (simp add: less_mult_imp_div_less)
  have b: "v mod 65536 = 256 * (v div 256 mod 256) + v mod 256"
    using mod_mult2_eq [of v 256 256] by simp
  have c: "v mod 16777216 = 65536 * (v div 65536 mod 256) + v mod 65536"
    using mod_mult2_eq [of v 65536 256] by simp
  have "v = 16777216 * (v div 16777216) + v mod 16777216" by simp
  then show ?thesis using a b c by simp
qed

lemma header_nth:
  assumes "take 44 buffer = h" "i < 44"
  shows "buffer ! i = h ! i"
  using assms by (metis nth_take)

lemma wavHeader_ids:
  "take 4 (wavHeader ab) = ascii ''RIFF''"
  "take 4 (drop 8 (wavHeader ab)) = ascii ''WAVE''"
  "take 4 (drop 12 (wavHeader ab)) = ascii ''fmt ''"
  "take 4 (drop 36 (wavHeader ab)) = ascii ''data''"
  by (simp_all add: wavHeader_def Let_def le32_def le16_def ascii_def)

lemma length_le [simp]: "length (le32 v) = 4" "length (le16 w) = 2"
  by (simp_all add: le32_def le16_def)

lemma length_wavHeader: "length (wavHeader ab) = 44"
  by (simp add: wavHeader_def Let_def)

lemma take_drop_take:
  "off + k \<le> m \<Longrightarrow> take k (drop off (take m xs)) = take k (drop off xs)"
  by (simp add: drop_take min_def)

lemma getUint32_le32:
  assumes "take 4 (drop off buffer) = le32 v" "v < 4294967296"
  shows "view_getUint32 off buffer = v"
proof -
  have l: "off + 4 \<le> length buffer"
    using arg_cong [OF assms(1), of length] by simp
  have n: "buffer ! (off + k) = le32 v ! k" if "k < 4" for k
    using that l assms(1) by (metis nth_take nth_drop add_leD1)
  have "buffer ! off = le32 v ! 0" using n [of 0] by simp
  moreover have "buffer ! (off + 1) = le32 v ! 1" using n [of 1] by simp
  moreover have "buffer ! (off + 2) = le32 v ! 2" using n [of 2] by simp
  moreover have "buffer ! (off + 3) = le32 v ! 3" using n [of 3] by simp
  ultimately have "view_getUint32 off buffer =
      v mod 256 + 256 * (v div 256 mod 256) + 65536 * (v div 65536 mod 256)
        + 16777216 * (v div 16777216 mod 256)"
    by (simp add: view_getUint32_def le32_def unat_byte)
  then show ?thesis by (simp only: le32_decode [OF assms(2)])
qed

lemma getUint16_le16:
  assumes "take 2 (drop off buffer) = le16 v" "v < 65536"
  shows "view_getUint16 off buffer = v"
proof -
  have l: "off + 2 \<le> length buffer"
    using arg_cong [OF assms(1), of length] by simp
  have n: "buffer ! (off + k) = le16 v ! k" if "k < 2" for k
    using that l assms(1) by (metis nth_take nth_drop add_leD1)
  have "buffer ! off = le16 v ! 0" using n [of 0] by simp
  moreover have "buffer ! (off + 1) = le16 v ! 1" using n [of 1] by simp
  ultimately have "view_getUint16 off buffer = v mod 256 + 256 * (v div 256 mod 256)"
    by (simp add: view_getUint16_def le16_def unat_byte)
  then show ?thesis by (simp only: le16_decode [OF assms(2)])
qed

lemma wavHeader_fields:
  "take 4 (drop 4 (wavHeader ab)) = le32 ((36 + length_ab ab * numberOfChannels ab * 2) mod 2 ^ 32)"
  "take 4 (drop 16 (wavHeader ab)) = le32 (16 mod 2 ^ 32)"
  "take 2 (drop 20 (wavHeader ab)) = le16 (1 mod 2 ^ 16)"
  "take 2 (drop 22 (wavHeader ab)) = le16 (numberOfChannels ab mod 2 ^ 16)"
  "take 4 (drop 24 (wavHeader ab)) = le32 (sampleRate ab mod 2 ^ 32)"
  "take 4 (drop 28 (wavHeader ab)) = le32 (sampleRate ab * 2 * numberOfChannels ab mod 2 ^ 32)"
  "take 2 (drop 32 (wavHeader ab)) = le16 (numberOfChannels ab * 2 mod 2 ^ 16)"
  "take 2 (drop 34 (wavHeader ab)) = le16 (16 mod 2 ^ 16)"
  "take 4 (drop 40 (wavHeader ab)) = le32 (length_ab ab * numberOfChannels ab * 2 mod 2 ^ 32)"
  unfolding wavHeader_def Let_def by simp_all

text \<open>
  The data loop. Its writes fall into the zeros after what is already written; it writes
  the frames from its starting \<open>pos\<close> on, interleaved, and nothing else.
\<close>

lemma view_set_middle:
  assumes "length pre = byteOffset" "length old = length bs"
  shows "view_set byteOffset bs (pre @ old @ post) = Some (pre @ bs @ post)"
  using assms by (simp add: view_set_def)

lemma frameBytes_step:
  "i < numOfChan \<Longrightarrow>
   frameBytes audioBuffer numOfChan pos i =
     le16s (float32ToInt16 (getChannelData audioBuffer i pos)) @ frameBytes audioBuffer numOfChan pos (i + 1)"
  by (simp add: frameBytes_def upt_conv_Cons)

lemma frameBytes_done: "\<not> i < numOfChan \<Longrightarrow> frameBytes audioBuffer numOfChan pos i = []"
  by (simp add: frameBytes_def)

lemma length_frameBytes: "length (frameBytes audioBuffer numOfChan pos i) = 2 * (numOfChan - i)"
  by (simp add: frameBytes_def le16s_def length_concat comp_def sum_list_triv)

lemma writeChannels_bytes:
  "length pre = 44 + offset \<Longrightarrow> length old = 2 * (numOfChan - i) \<Longrightarrow>
   writeChannels audioBuffer numOfChan pos i (pre @ old @ post, offset)
     = Some (pre @ frameBytes audioBuffer numOfChan pos i @ post, offset + 2 * (numOfChan - i))"
proof (induction "numOfChan - i" arbitrary: i pre old offset)
  case 0
  then have "\<not> i < numOfChan" by simp
  then show ?case using "0.prems"
    by (subst writeChannels.simps) (simp add: frameBytes_done)
next
  case (Suc k)
  then have True: "i < numOfChan" by simp
  let ?bs = "le16s (float32ToInt16 (getChannelData audioBuffer i pos))"
  have l: "2 \<le> length old" using True Suc.prems by simp
  have w: "view_setInt16 (44 + offset)
             (scaleSample (clampSample (getChannelData audioBuffer i pos))) (pre @ old @ post)
           = Some ((pre @ ?bs) @ drop 2 old @ post)"
    using l Suc.prems(1)
    by (simp add: view_setInt16_def view_set_def float32ToInt16_def le16s_def)
  have k: "k = numOfChan - (i + 1)" using Suc.hyps(2) by simp
  have p: "length (pre @ ?bs) = 44 + (offset + 2)" using Suc.prems(1) by (simp add: le16s_def)
  have d: "length (drop 2 old) = 2 * (numOfChan - (i + 1))" using Suc.prems(2) True by simp
  have r: "writeChannels audioBuffer numOfChan pos (i + 1) ((pre @ ?bs) @ drop 2 old @ post, offset + 2)
           = Some ((pre @ ?bs) @ frameBytes audioBuffer numOfChan pos (i + 1) @ post,
                   offset + 2 + 2 * (numOfChan - (i + 1)))"
    by (rule Suc.hyps(1) [OF k p d])
  have e: "offset + 2 + 2 * (numOfChan - (i + 1)) = offset + 2 * (numOfChan - i)"
    using True by simp
  show ?case
    using r unfolding e
    by (subst writeChannels.simps) (simp add: True w frameBytes_step)
qed

lemma dataBytes_step:
  "pos < length_ab audioBuffer \<Longrightarrow>
   dataBytes audioBuffer numOfChan pos =
     frameBytes audioBuffer numOfChan pos 0 @ dataBytes audioBuffer numOfChan (pos + 1)"
  by (simp add: dataBytes_def upt_conv_Cons)

lemma dataBytes_done: "\<not> pos < length_ab audioBuffer \<Longrightarrow> dataBytes audioBuffer numOfChan pos = []"
  by (simp add: dataBytes_def)

lemma writeFrames_bytes:
  "length pre = 44 + offset \<Longrightarrow> length old = 2 * numOfChan * (length_ab audioBuffer - pos) \<Longrightarrow>
   writeFrames audioBuffer numOfChan pos (pre @ old @ post, offset)
     = Some (pre @ dataBytes audioBuffer numOfChan pos @ post)"
proof (induction "length_ab audioBuffer - pos" arbitrary: pos pre old offset)
  case 0
  then have "\<not> pos < length_ab audioBuffer" by simp
  then show ?case using "0.prems"
    by (subst writeFrames.simps) (simp add: dataBytes_done)
next
  case (Suc k)
  then have True: "pos < length_ab audioBuffer" by simp
  let ?n = "2 * numOfChan"
  let ?fb = "frameBytes audioBuffer numOfChan pos 0"
  have split: "numOfChan * (length_ab audioBuffer - pos)
               = numOfChan + numOfChan * (length_ab audioBuffer - (pos + 1))"
    using True by (metis Suc_diff_Suc Suc_eq_plus1 mult_Suc_right)
  have o: "take ?n old @ drop ?n old @ post = old @ post"
    by (metis append_assoc append_take_drop_id)
  have lt: "length (take ?n old) = 2 * (numOfChan - 0)" using Suc.prems(2) split by simp
  have w: "writeChannels audioBuffer numOfChan pos 0 (pre @ take ?n old @ (drop ?n old @ post), offset)
           = Some (pre @ ?fb @ (drop ?n old @ post), offset + 2 * (numOfChan - 0))"
    by (rule writeChannels_bytes [OF Suc.prems(1) lt])
  have w': "writeChannels audioBuffer numOfChan pos 0 (pre @ old @ post, offset)
           = Some ((pre @ ?fb) @ drop ?n old @ post, offset + ?n)"
    using w unfolding o by simp
  have k: "k = length_ab audioBuffer - (pos + 1)" using Suc.hyps(2) by simp
  have p: "length (pre @ ?fb) = 44 + (offset + ?n)"
    using Suc.prems(1) by (simp add: length_frameBytes)
  have d: "length (drop ?n old) = 2 * numOfChan * (length_ab audioBuffer - (pos + 1))"
    using Suc.prems(2) split by simp
  have r: "writeFrames audioBuffer numOfChan (pos + 1) ((pre @ ?fb) @ drop ?n old @ post, offset + ?n)
           = Some ((pre @ ?fb) @ dataBytes audioBuffer numOfChan (pos + 1) @ post)"
    by (rule Suc.hyps(1) [OF k p d])
  show ?case
    using r by (subst writeFrames.simps) (simp add: True w' dataBytes_step)
qed

lemma createWavBuffer_data:
  "createWavBuffer audioBuffer =
     Some (wavHeader audioBuffer
           @ dataBytes audioBuffer (numberOfChannels audioBuffer) 44
           @ replicate (2 * numberOfChannels audioBuffer * min 44 (length_ab audioBuffer)) 0)"
proof -
  let ?n = "numberOfChannels audioBuffer" and ?L = "length_ab audioBuffer"
  have "?L = (?L - 44) + min 44 ?L" by simp
  then have "?L * ?n * 2 = 2 * ?n * (?L - 44) + 2 * ?n * min 44 ?L"
    by (metis distrib_left mult.commute mult.assoc)
  then have z: "replicate (?L * ?n * 2) (0::byte)
           = replicate (2 * ?n * (?L - 44)) 0 @ replicate (2 * ?n * min 44 ?L) 0"
    by (simp only: replicate_add)
  show ?thesis
    unfolding createWavBuffer_header z
    by (rule writeFrames_bytes) (simp_all add: length_wavHeader)
qed

lemma length_dataBytes:
  "length (dataBytes audioBuffer numOfChan pos) = 2 * numOfChan * (length_ab audioBuffer - pos)"
  by (simp add: dataBytes_def length_concat comp_def length_frameBytes sum_list_triv)

text \<open>
  So \<open>createWavBuffer\<close> returns the header, the frames from 44 on, and zeros for the rest
  of the data section.
\<close>

lemma createWavBuffer_Some:
  "\<exists>buffer. createWavBuffer ab = Some buffer
     \<and> length buffer = 44 + length_ab ab * numberOfChannels ab * 2
     \<and> take 44 buffer = wavHeader ab"
proof -
  let ?n = "numberOfChannels ab" and ?L = "length_ab ab"
  have "?L = (?L - 44) + min 44 ?L" by simp
  then have "?L * ?n * 2 = 2 * ?n * (?L - 44) + 2 * ?n * min 44 ?L"
    by (metis distrib_left mult.commute mult.assoc)
  then show ?thesis
    by (simp add: createWavBuffer_data length_wavHeader length_dataBytes)
qed

text \<open>
  C2. For a decoded buffer with \<open>length_ab\<close> frames, \<open>numberOfChannels\<close> channels
  and rate \<open>sampleRate\<close>, \<open>createWavBuffer\<close> returns a buffer of
  \<open>44 + frames * channels * 2\<close> bytes whose first 44 bytes are a little-endian PCM WAV
  header: the chunk identifiers RIFF, WAVE, fmt and data, a format chunk of 16 bytes, format
  tag 1, 16 bits per sample, and the channel count, the sample rate, the byte rate
  \<open>sampleRate * channels * 2\<close>, the block align \<open>channels * 2\<close>, the data length
  \<open>frames * channels * 2\<close> and the RIFF length (the data length plus 36), each of which
  reads back as the original value whenever that value fits the 16-bit or 32-bit field the
  WAV format gives it.
\<close>

theorem createWavBuffer_length_and_header:
  "\<exists>buffer. createWavBuffer ab = Some buffer
     \<and> length buffer = 44 + length_ab ab * numberOfChannels ab * 2
     \<and> take 4 buffer = ascii ''RIFF''
     \<and> take 4 (drop 8 buffer) = ascii ''WAVE''
     \<and> take 4 (drop 12 buffer) = ascii ''fmt ''
     \<and> view_getUint32 16 buffer = 16
     \<and> view_getUint16 20 buffer = 1
     \<and> view_getUint16 34 buffer = 16
     \<and> take 4 (drop 36 buffer) = ascii ''data''
     \<and> (numberOfChannels ab * 2 < 2 ^ 16 \<longrightarrow>
          view_getUint16 22 buffer = numberOfChannels ab
          \<and> view_getUint16 32 buffer = numberOfChannels ab * 2)
     \<and> (sampleRate ab < 2 ^ 32 \<longrightarrow> view_getUint32 24 buffer = sampleRate ab)
     \<and> (sampleRate ab * numberOfChannels ab * 2 < 2 ^ 32 \<longrightarrow>
          view_getUint32 28 buffer = sampleRate ab * numberOfChannels ab * 2)
     \<and> (length_ab ab * numberOfChannels ab * 2 < 2 ^ 32 \<longrightarrow>
          view_getUint32 40 buffer = length_ab ab * numberOfChannels ab * 2)
     \<and> (36 + length_ab ab * numberOfChannels ab * 2 < 2 ^ 32 \<longrightarrow>
          view_getUint32 4 buffer = 36 + length_ab ab * numberOfChannels ab * 2)"
proof -
  from createWavBuffer_Some [of ab] obtain buffer where
    s: "createWavBuffer ab = Some buffer"
    and l: "length buffer = 44 + length_ab ab * numberOfChannels ab * 2"
    and h: "take 44 buffer = wavHeader ab" by blast
  have sub: "take k (drop off buffer) = take k (drop off (wavHeader ab))" if "off + k \<le> 44" for off k
    using take_drop_take [OF that, of buffer] h by simp
  have ids: "take 4 buffer = ascii ''RIFF''" "take 4 (drop 8 buffer) = ascii ''WAVE''"
    "take 4 (drop 12 buffer) = ascii ''fmt ''" "take 4 (drop 36 buffer) = ascii ''data''"
    using sub [of 0 4] sub [of 8 4] sub [of 12 4] sub [of 36 4] wavHeader_ids [of ab] by simp_all
  have c1: "view_getUint32 16 buffer = 16"
    using sub [of 16 4] wavHeader_fields(2) [of ab] by (intro getUint32_le32) simp_all
  have c2: "view_getUint16 20 buffer = 1"
    using sub [of 20 2] wavHeader_fields(3) [of ab] by (intro getUint16_le16) simp_all
  have c3: "view_getUint16 34 buffer = 16"
    using sub [of 34 2] wavHeader_fields(8) [of ab] by (intro getUint16_le16) simp_all
  have ch: "view_getUint16 22 buffer = numberOfChannels ab
            \<and> view_getUint16 32 buffer = numberOfChannels ab * 2"
    if "numberOfChannels ab * 2 < 2 ^ 16"
  proof
    show "view_getUint16 22 buffer = numberOfChannels ab"
      using that sub [of 22 2] wavHeader_fields(4) [of ab] by (intro getUint16_le16) simp_all
    show "view_getUint16 32 buffer = numberOfChannels ab * 2"
      using that sub [of 32 2] wavHeader_fields(7) [of ab] by (intro getUint16_le16) simp_all
  qed
  have sr: "view_getUint32 24 buffer = sampleRate ab" if "sampleRate ab < 2 ^ 32"
    using that sub [of 24 4] wavHeader_fields(5) [of ab] by (intro getUint32_le32) simp_all
  have br: "view_getUint32 28 buffer = sampleRate ab * numberOfChannels ab * 2"
    if "sampleRate ab * numberOfChannels ab * 2 < 2 ^ 32"
    using that sub [of 28 4] wavHeader_fields(6) [of ab]
    by (intro getUint32_le32) (simp_all add: mult.commute mult.left_commute)
  have dl: "view_getUint32 40 buffer = length_ab ab * numberOfChannels ab * 2"
    if "length_ab ab * numberOfChannels ab * 2 < 2 ^ 32"
    using that sub [of 40 4] wavHeader_fields(9) [of ab] by (intro getUint32_le32) simp_all
  have rl: "view_getUint32 4 buffer = 36 + length_ab ab * numberOfChannels ab * 2"
    if "36 + length_ab ab * numberOfChannels ab * 2 < 2 ^ 32"
    using that sub [of 4 4] wavHeader_fields(1) [of ab] by (intro getUint32_le32) simp_all
  show ?thesis using s l ids c1 c2 c3 ch sr br dl rl by blast
qed

theorem createWavBuffer_length_and_header_witness:
  "\<exists>buffer.
     createWavBuffer \<lparr>numberOfChannels = 2, length_ab = 3, sampleRate = 48000,
                       getChannelData = (\<lambda>c i. Num 0)\<rparr> = Some buffer
     \<and> length buffer = 56
     \<and> take 4 buffer = ascii ''RIFF''
     \<and> take 4 (drop 8 buffer) = ascii ''WAVE''
     \<and> take 4 (drop 12 buffer) = ascii ''fmt ''
     \<and> view_getUint32 16 buffer = 16
     \<and> view_getUint16 20 buffer = 1
     \<and> view_getUint16 34 buffer = 16
     \<and> take 4 (drop 36 buffer) = ascii ''data''
     \<and> view_getUint16 22 buffer = 2
     \<and> view_getUint16 32 buffer = 4
     \<and> view_getUint32 24 buffer = 48000
     \<and> view_getUint32 28 buffer = 192000
     \<and> view_getUint32 40 buffer = 12
     \<and> view_getUint32 4 buffer = 48"
  using createWavBuffer_length_and_header
    [of "\<lparr>numberOfChannels = 2, length_ab = 3, sampleRate = 48000,
          getChannelData = (\<lambda>c i. Num 0)\<rparr>"]
  by simp

section \<open>The WAV writer: the data section\<close>

lemma createWavBuffer_markedEnds: "createWavBuffer markedEnds
   = Some (wavHeader markedEnds @ [0x00, 0x80] @ replicate 88 0)"
  unfolding createWavBuffer_header
  apply (simp add: markedEnds_def writeFrames.simps writeChannels.simps)
  apply (simp add: view_setInt16_def view_set_def length_wavHeader le16s_def scaleSample_def clampSample_def toIntegerOrInfinity_def)
  done

text \<open>
  C1. The claim: the 16-bit value at byte offset \<open>44 + 2 * (frame * channels + channel)\<close>
  is the quantization of the sample of that channel at that frame, for every frame. The
  header writes leave \<open>pos\<close> at 44 and the data loop starts from that \<open>pos\<close>, so the
  loop skips the frames 0 to 43: for the one-channel buffer of 45 frames with first sample 1
  and last sample -1, the value at offset 44 is -32768 (the quantization of frame 44) where
  the claim requires 32767 (frame 0), and the value at the offset of frame 44 is 0 where the
  claim requires -32768.
\<close>

theorem createWavBuffer_skips_first_frames:
  "createWavBuffer markedEnds
     = Some (wavHeader markedEnds @ [0x00, 0x80] @ replicate 88 0)
   \<and> map_option (view_getInt16 (44 + 2 * (0 * 1 + 0))) (createWavBuffer markedEnds) = Some (- 32768)
   \<and> float32ToInt16 (getChannelData markedEnds 0 0) = 32767
   \<and> map_option (view_getInt16 (44 + 2 * (44 * 1 + 0))) (createWavBuffer markedEnds) = Some 0
   \<and> float32ToInt16 (getChannelData markedEnds 0 44) = - 32768"
proof -
  have q: "float32ToInt16 (getChannelData markedEnds 0 0) = 32767"
    "float32ToInt16 (getChannelData markedEnds 0 44) = - 32768"
    by (simp_all add: markedEnds_def float32ToInt16_nonneg float32ToInt16_neg)
  have g: "view_getInt16 44 (wavHeader markedEnds @ [0x00, 0x80] @ replicate 88 0) = - 32768"
    "view_getInt16 132 (wavHeader markedEnds @ [0x00, 0x80] @ replicate 88 0) = 0"
    by (simp_all add: view_getInt16_def view_getUint16_def nth_append length_wavHeader)
  show ?thesis using q g by (simp add: createWavBuffer_markedEnds)
qed

text \<open>
  The interleaving loops of \<open>convertToFlac\<close> run over the same buffer from frame 0: the
  sample of every frame and channel is at index \<open>frame * numChannels + channel\<close>.
\<close>

lemma idx_eq:
  assumes "c < n" "c' < n"
  shows "(i * n + c = j * n + c') = (i = j \<and> c = (c'::nat))"
proof
  assume e: "i * n + c = j * n + c'"
  have "(i * n + c) div n = i" "(i * n + c) mod n = c" using assms by simp_all
  moreover have "(j * n + c') div n = j" "(j * n + c') mod n = c'" using assms by simp_all
  ultimately show "i = j \<and> c = c'" using e by metis
qed simp

lemma idx_lt:
  assumes "i < L" "c < (n::nat)"
  shows "i * n + c < L * n"
proof -
  have "i * n + c < (i + 1) * n" using assms(2) by simp
  also have "\<dots> \<le> L * n" using assms(1) by (intro mult_le_mono1) simp
  finally show ?thesis .
qed

lemma frames_loop:
  assumes "c < n" "m \<le> L" "length sd = L * n"
  shows "length (foldl (\<lambda>sampleData i. sampleData[i * n + c := f i]) sd [0..<m]) = L * n
       \<and> (\<forall>i c'. i < L \<longrightarrow> c' < n \<longrightarrow>
            foldl (\<lambda>sampleData i. sampleData[i * n + c := f i]) sd [0..<m] ! (i * n + c')
              = (if c' = c \<and> i < m then f i else sd ! (i * n + c')))"
  using assms(2)
proof (induction m)
  case 0
  then show ?case using assms(3) by simp
next
  case (Suc m)
  let ?r = "foldl (\<lambda>sampleData i. sampleData[i * n + c := f i]) sd [0..<m]"
  have ih: "length ?r = L * n"
    "\<And>i c'. i < L \<Longrightarrow> c' < n \<Longrightarrow> ?r ! (i * n + c') = (if c' = c \<and> i < m then f i else sd ! (i * n + c'))"
    using Suc by simp_all
  have b: "m * n + c < length ?r" using idx_lt [of m L c n] Suc.prems assms(1) ih(1) by simp
  have s: "foldl (\<lambda>sampleData i. sampleData[i * n + c := f i]) sd [0..<Suc m] = ?r[m * n + c := f m]"
    by simp
  show ?case
  proof (intro conjI allI impI)
    show "length (foldl (\<lambda>sampleData i. sampleData[i * n + c := f i]) sd [0..<Suc m]) = L * n"
      unfolding s using ih(1) by simp
  next
    fix i c' assume i: "i < L" and c': "c' < n"
    have "?r[m * n + c := f m] ! (i * n + c')
          = (if m * n + c = i * n + c' then f m else ?r ! (i * n + c'))"
      using b by (simp add: nth_list_update)
    also have "\<dots> = (if c' = c \<and> i < Suc m then f i else sd ! (i * n + c'))"
      using idx_eq [OF assms(1) c', of m i] ih(2) [OF i c'] by (auto simp: less_Suc_eq)
    finally show "foldl (\<lambda>sampleData i. sampleData[i * n + c := f i]) sd [0..<Suc m] ! (i * n + c')
          = (if c' = c \<and> i < Suc m then f i else sd ! (i * n + c'))"
      unfolding s .
  qed
qed

lemma channels_loop:
  assumes "k \<le> n" "length sd = L * n"
  shows "length (foldl (\<lambda>sampleData channel.
                   foldl (\<lambda>sampleData i. sampleData[i * n + channel := g channel i]) sampleData [0..<L])
                 sd [0..<k]) = L * n
       \<and> (\<forall>i c'. i < L \<longrightarrow> c' < n \<longrightarrow>
            foldl (\<lambda>sampleData channel.
                   foldl (\<lambda>sampleData i. sampleData[i * n + channel := g channel i]) sampleData [0..<L])
                 sd [0..<k] ! (i * n + c')
              = (if c' < k then g c' i else sd ! (i * n + c')))"
  using assms(1)
proof (induction k)
  case 0
  then show ?case using assms(2) by simp
next
  case (Suc k)
  let ?inner = "\<lambda>sampleData channel.
                   foldl (\<lambda>sampleData i. sampleData[i * n + channel := g channel i]) sampleData [0..<L]"
  let ?r = "foldl ?inner sd [0..<k]"
  have ih: "length ?r = L * n"
    "\<And>i c'. i < L \<Longrightarrow> c' < n \<Longrightarrow> ?r ! (i * n + c') = (if c' < k then g c' i else sd ! (i * n + c'))"
    using Suc by simp_all
  have kn: "k < n" using Suc.prems by simp
  have s: "foldl ?inner sd [0..<Suc k] = ?inner ?r k" by simp
  note fl = frames_loop [OF kn order_refl ih(1), of "g k"]
  show ?case
  proof (intro conjI allI impI)
    show "length (foldl ?inner sd [0..<Suc k]) = L * n" unfolding s using fl by blast
  next
    fix i c' assume i: "i < L" and c': "c' < n"
    have "?inner ?r k ! (i * n + c') = (if c' = k \<and> i < L then g k i else ?r ! (i * n + c'))"
      using fl i c' by blast
    also have "\<dots> = (if c' < Suc k then g c' i else sd ! (i * n + c'))"
      using ih(2) [OF i c'] i by (auto simp: less_Suc_eq)
    finally show "foldl ?inner sd [0..<Suc k] ! (i * n + c')
          = (if c' < Suc k then g c' i else sd ! (i * n + c'))"
      unfolding s .
  qed
qed

lemma interleave_from_frame_zero:
  assumes "frame < length_ab audioBuffer" "channel < numberOfChannels audioBuffer"
  shows "interleave audioBuffer ! (frame * numberOfChannels audioBuffer + channel)
           = float32ToInt16 (getChannelData audioBuffer channel frame)"
    and "length (interleave audioBuffer) = length_ab audioBuffer * numberOfChannels audioBuffer"
  using channels_loop [OF order_refl, of "replicate (length_ab audioBuffer * numberOfChannels audioBuffer) 0"
          "length_ab audioBuffer" "numberOfChannels audioBuffer"
          "\<lambda>channel i. float32ToInt16 (getChannelData audioBuffer channel i)"] assms
  by (simp_all add: interleave_def Let_def)

section \<open>The component\<close>

subsection \<open>Starting without a stream\<close>

text \<open>
  C5. When no capture stream is retained, \<open>startRecording\<close> sets the error message to the
  stream-not-available text and changes nothing else: \<open>isRecording\<close> keeps its value and no
  recorder is constructed or started, whatever the browser would do.
\<close>

theorem startRecording_without_stream:
  assumes "streamRef st = None"
  shows "startRecording env st =
           st\<lparr>errorMessage := ''Camera stream is not available. Please reload and allow access.''\<rparr>
         \<and> isRecording (startRecording env st) = isRecording st
         \<and> mediaRecorderRef (startRecording env st) = mediaRecorderRef st
         \<and> audioRecorderRef (startRecording env st) = audioRecorderRef st"
  using assms by (simp add: startRecording_def)

theorem startRecording_without_stream_witness:
  "streamRef initial_state = None
   \<and> startRecording plainBrowser initial_state =
       initial_state\<lparr>errorMessage := ''Camera stream is not available. Please reload and allow access.''\<rparr>
   \<and> isRecording (startRecording plainBrowser initial_state) = False
   \<and> mediaRecorderRef (startRecording plainBrowser initial_state) = None
   \<and> audioRecorderRef (startRecording plainBrowser initial_state) = None"
  using startRecording_without_stream [of initial_state plainBrowser]
  by (simp add: initial_state_def)

subsection \<open>Stopping\<close>

lemma stopIfRecording_idle:
  "\<not> activelyRecording r \<Longrightarrow> stopIfRecording env r = Inr r"
  by (auto simp: stopIfRecording_def activelyRecording_def split: option.splits)

lemma stopIfRecording_cases:
  "stopIfRecording env r =
     (case stopThrows env r of
        Some e \<Rightarrow> Inl e
      | None \<Rightarrow> Inr (map_option (\<lambda>recorder. recorder\<lparr>rec_state := if rec_state recorder = recording then inactive else rec_state recorder\<rparr>) r))"
  by (simp add: stopIfRecording_def stopThrows_def split: option.splits)

lemma stopIfRecording_Inr_idle:
  "stopIfRecording env r = Inr r' \<Longrightarrow> \<not> activelyRecording r'"
  by (auto simp: stopIfRecording_def activelyRecording_def split: option.splits if_splits)

lemma stopRecording_idle:
  assumes "\<not> activelyRecording (mediaRecorderRef st)" "\<not> activelyRecording (audioRecorderRef st)"
  shows "stopRecording env st = st\<lparr>isRecording := False\<rparr>"
  using assms by (simp add: stopRecording_def stopIfRecording_idle Let_def)

lemma stopRecording_refs_idle:
  assumes "stopThrows env (mediaRecorderRef st) = None" "stopThrows env (audioRecorderRef st) = None"
  shows "\<not> activelyRecording (mediaRecorderRef (stopRecording env st))
       \<and> \<not> activelyRecording (audioRecorderRef (stopRecording env st))
       \<and> errorMessage (stopRecording env st) = errorMessage st"
  using assms
  by (auto simp: stopRecording_def stopIfRecording_cases activelyRecording_def Let_def
        split: option.splits)

lemma stopRecording_twice:
  assumes "stopThrows env (mediaRecorderRef st) = None" "stopThrows env (audioRecorderRef st) = None"
  shows "stopRecording env' (stopRecording env st) = stopRecording env st"
proof -
  let ?s = "stopRecording env st"
  have i: "\<not> activelyRecording (mediaRecorderRef ?s)" "\<not> activelyRecording (audioRecorderRef ?s)"
    using stopRecording_refs_idle [OF assms] by simp_all
  have "isRecording ?s = False"
    by (simp add: stopRecording_def stopIfRecording_cases Let_def split: option.splits)
  then have "?s\<lparr>isRecording := False\<rparr> = ?s" by simp
  then show ?thesis using stopRecording_idle [OF i, of env'] by simp
qed

lemma stopRecording_throws:
  "stopThrows env (mediaRecorderRef st) = Some err \<Longrightarrow>
     stopRecording env st =
       st\<lparr>errorMessage := ''Error stopping recording: '' @ err_message err, isRecording := False\<rparr>"
  "stopThrows env (mediaRecorderRef st) = None \<Longrightarrow> stopThrows env (audioRecorderRef st) = Some err \<Longrightarrow>
     errorMessage (stopRecording env st) = ''Error stopping recording: '' @ err_message err
     \<and> isRecording (stopRecording env st) = False"
  by (simp_all add: stopRecording_def stopIfRecording_cases Let_def)

lemma stopRecording_not_recording: "isRecording (stopRecording env st) = False"
  by (simp add: stopRecording_def stopIfRecording_cases Let_def split: option.splits)

text \<open>
  C6. \<open>stopRecording\<close> stops a recorder only when it reports the state \<open>recording\<close>: on a
  ref that is empty or not recording the guarded stop leaves the ref alone, and when neither
  recorder is recording the call only sets \<open>isRecording\<close> to false, whatever \<open>stop\<close> would
  do, with no error message. After a call in which no \<open>stop\<close> throws, both recorders are
  stopped and the message is unchanged, so a second consecutive call changes nothing. When a
  \<open>stop\<close> throws, the exception is caught, its message is reported and \<open>isRecording\<close> is
  false; \<open>isRecording\<close> is false after every call.
\<close>

theorem stopRecording_idempotent:
  "(\<not> activelyRecording r \<longrightarrow> stopIfRecording env r = Inr r)
   \<and> (\<not> activelyRecording (mediaRecorderRef st) \<and> \<not> activelyRecording (audioRecorderRef st) \<longrightarrow>
        stopRecording env st = st\<lparr>isRecording := False\<rparr>)
   \<and> (stopThrows env1 (mediaRecorderRef st1) = None \<and> stopThrows env1 (audioRecorderRef st1) = None \<longrightarrow>
        \<not> activelyRecording (mediaRecorderRef (stopRecording env1 st1))
        \<and> \<not> activelyRecording (audioRecorderRef (stopRecording env1 st1))
        \<and> errorMessage (stopRecording env1 st1) = errorMessage st1
        \<and> stopRecording env1' (stopRecording env1 st1) = stopRecording env1 st1)
   \<and> (stopThrows env2 (mediaRecorderRef st2) = Some err
        \<or> stopThrows env2 (mediaRecorderRef st2) = None \<and> stopThrows env2 (audioRecorderRef st2) = Some err \<longrightarrow>
        errorMessage (stopRecording env2 st2) = ''Error stopping recording: '' @ err_message err
        \<and> isRecording (stopRecording env2 st2) = False)
   \<and> isRecording (stopRecording env3 st3) = False"
proof (intro conjI impI)
  assume "\<not> activelyRecording r"
  then show "stopIfRecording env r = Inr r" by (rule stopIfRecording_idle)
next
  assume "\<not> activelyRecording (mediaRecorderRef st) \<and> \<not> activelyRecording (audioRecorderRef st)"
  then show "stopRecording env st = st\<lparr>isRecording := False\<rparr>"
    by (simp add: stopRecording_idle)
next
  assume a: "stopThrows env1 (mediaRecorderRef st1) = None \<and> stopThrows env1 (audioRecorderRef st1) = None"
  then have m: "stopThrows env1 (mediaRecorderRef st1) = None"
    and u: "stopThrows env1 (audioRecorderRef st1) = None" by simp_all
  show "\<not> activelyRecording (mediaRecorderRef (stopRecording env1 st1))"
    "\<not> activelyRecording (audioRecorderRef (stopRecording env1 st1))"
    "errorMessage (stopRecording env1 st1) = errorMessage st1"
    using stopRecording_refs_idle [OF m u] by simp_all
  show "stopRecording env1' (stopRecording env1 st1) = stopRecording env1 st1"
    by (rule stopRecording_twice [OF m u])
next
  assume a: "stopThrows env2 (mediaRecorderRef st2) = Some err
        \<or> stopThrows env2 (mediaRecorderRef st2) = None \<and> stopThrows env2 (audioRecorderRef st2) = Some err"
  then show "errorMessage (stopRecording env2 st2) = ''Error stopping recording: '' @ err_message err"
    using stopRecording_throws [of env2 st2 err] by auto
  show "isRecording (stopRecording env2 st2) = False" by (rule stopRecording_not_recording)
next
  show "isRecording (stopRecording env3 st3) = False" by (rule stopRecording_not_recording)
qed

theorem stopRecording_idempotent_witness:
  "\<not> activelyRecording None
   \<and> stopIfRecording (plainBrowser\<lparr>recorder_stop_error := (\<lambda>recorder. Some stopFailure)\<rparr>) None = Inr None
   \<and> stopRecording (plainBrowser\<lparr>recorder_stop_error := (\<lambda>recorder. Some stopFailure)\<rparr>) initial_state
        = initial_state
   \<and> stopThrows plainBrowser (mediaRecorderRef recordingState) = None
   \<and> stopThrows plainBrowser (audioRecorderRef recordingState) = None
   \<and> stopRecording (plainBrowser\<lparr>recorder_stop_error := (\<lambda>recorder. Some stopFailure)\<rparr>)
        (stopRecording plainBrowser recordingState) = stopRecording plainBrowser recordingState
   \<and> stopThrows (plainBrowser\<lparr>recorder_stop_error := (\<lambda>recorder. Some stopFailure)\<rparr>)
        (mediaRecorderRef recordingState) = Some stopFailure
   \<and> errorMessage (stopRecording (plainBrowser\<lparr>recorder_stop_error := (\<lambda>recorder. Some stopFailure)\<rparr>)
        recordingState) = ''Error stopping recording: The recorder could not be stopped''
   \<and> isRecording (stopRecording (plainBrowser\<lparr>recorder_stop_error := (\<lambda>recorder. Some stopFailure)\<rparr>)
        recordingState) = False"
proof -
  let ?bad = "plainBrowser\<lparr>recorder_stop_error := (\<lambda>recorder. Some stopFailure)\<rparr>"
  have i: "\<not> activelyRecording None" "\<not> activelyRecording (mediaRecorderRef initial_state)"
    "\<not> activelyRecording (audioRecorderRef initial_state)"
    "initial_state\<lparr>isRecording := False\<rparr> = initial_state"
    by (simp_all add: activelyRecording_def initial_state_def)
  have n: "stopThrows plainBrowser (mediaRecorderRef recordingState) = None"
    "stopThrows plainBrowser (audioRecorderRef recordingState) = None"
    by (simp_all add: stopThrows_def recordingState_def plainBrowser_def)
  have b: "stopThrows ?bad (mediaRecorderRef recordingState) = Some stopFailure"
    by (simp add: stopThrows_def recordingState_def activeRecorder_def)
  have e: "err_message stopFailure = ''The recorder could not be stopped''"
    by (simp add: stopFailure_def)
  show ?thesis
    using stopRecording_idempotent
      [of None ?bad initial_state plainBrowser recordingState ?bad ?bad recordingState stopFailure]
      i n b e
    by simp
qed

subsection \<open>The video handler\<close>

text \<open>
  C7. For a non-empty video buffer, when the negotiated video type is \<open>video/mp4\<close>, the
  handler exposes the assembled blob itself (the concatenation of the chunks, tagged
  \<open>video/mp4\<close>) and sets \<open>videoRecorded\<close>; the result does not depend on the browser, so
  no conversion step runs.
\<close>

theorem onstop_mp4_as_is:
  assumes "videoChunksRef st \<noteq> []" "videoMimeType st = ''video/mp4''"
  shows "mediaRecorder_onstop env st =
           st\<lparr>isConverting := True,
              videoURL := Some (newBlob (videoChunksRef st) ''video/mp4''),
              videoRecorded := True\<rparr>
         \<and> blob_bytes (newBlob (videoChunksRef st) ''video/mp4'') = concat (map blob_bytes (videoChunksRef st))"
  using assms by (simp add: mediaRecorder_onstop_def newBlob_def Let_def)

theorem onstop_mp4_as_is_witness:
  "videoChunksRef (initial_state\<lparr>videoChunksRef := oneChunk, videoMimeType := ''video/mp4''\<rparr>) \<noteq> []
   \<and> mediaRecorder_onstop (plainBrowser\<lparr>arrayBuffer_error := (\<lambda>b. Some unreadable)\<rparr>)
        (initial_state\<lparr>videoChunksRef := oneChunk, videoMimeType := ''video/mp4''\<rparr>)
      = initial_state\<lparr>videoChunksRef := oneChunk, videoMimeType := ''video/mp4'',
          isConverting := True,
          videoURL := Some \<lparr>blob_bytes = [1, 2, 3], blob_type = ''video/mp4''\<rparr>,
          videoRecorded := True\<rparr>"
  using onstop_mp4_as_is
    [of "initial_state\<lparr>videoChunksRef := oneChunk, videoMimeType := ''video/mp4''\<rparr>"
        "plainBrowser\<lparr>arrayBuffer_error := (\<lambda>b. Some unreadable)\<rparr>"]
  by (simp add: oneChunk_def newBlob_def)

text \<open>
  C8. For a non-empty video buffer, when the conversion to MP4 throws, the handler catches
  the exception, exposes the original blob with its original MIME type, sets
  \<open>videoRecorded\<close> and reports the warning message.
\<close>

theorem onstop_conversion_error:
  assumes "videoChunksRef st \<noteq> []" "videoMimeType st \<noteq> ''video/mp4''"
    and "convertToMp4 env (newBlob (videoChunksRef st) (videoMimeType st)) = Inl err"
  shows "mediaRecorder_onstop env st =
           st\<lparr>isConverting := True,
              errorMessage := ''Failed to convert video to MP4. Using original format.'',
              videoURL := Some (newBlob (videoChunksRef st) (videoMimeType st)),
              videoRecorded := True\<rparr>
         \<and> blob_type (newBlob (videoChunksRef st) (videoMimeType st)) = videoMimeType st
         \<and> blob_bytes (newBlob (videoChunksRef st) (videoMimeType st)) = concat (map blob_bytes (videoChunksRef st))"
  using assms by (simp add: mediaRecorder_onstop_def newBlob_def Let_def)

theorem onstop_conversion_error_witness:
  "videoChunksRef (initial_state\<lparr>videoChunksRef := oneChunk\<rparr>) \<noteq> []
   \<and> videoMimeType (initial_state\<lparr>videoChunksRef := oneChunk\<rparr>) \<noteq> ''video/mp4''
   \<and> convertToMp4 (plainBrowser\<lparr>arrayBuffer_error := (\<lambda>b. Some unreadable)\<rparr>)
        (newBlob oneChunk ''video/webm'') = Inl unreadable
   \<and> mediaRecorder_onstop (plainBrowser\<lparr>arrayBuffer_error := (\<lambda>b. Some unreadable)\<rparr>)
        (initial_state\<lparr>videoChunksRef := oneChunk\<rparr>)
      = initial_state\<lparr>videoChunksRef := oneChunk, isConverting := True,
          errorMessage := ''Failed to convert video to MP4. Using original format.'',
          videoURL := Some \<lparr>blob_bytes = [1, 2, 3], blob_type = ''video/webm''\<rparr>,
          videoRecorded := True\<rparr>"
proof -
  let ?env = "plainBrowser\<lparr>arrayBuffer_error := (\<lambda>b. Some unreadable)\<rparr>"
  let ?st = "initial_state\<lparr>videoChunksRef := oneChunk\<rparr>"
  have m: "videoMimeType ?st = ''video/webm''" by (simp add: initial_state_def)
  have c: "videoChunksRef ?st \<noteq> []" by (simp add: oneChunk_def)
  have e: "convertToMp4 ?env (newBlob (videoChunksRef ?st) (videoMimeType ?st)) = Inl unreadable"
    by (simp add: convertToMp4_def arrayBuffer_def)
  show ?thesis
    using onstop_conversion_error [of ?st ?env unreadable] m c e
    by (simp add: oneChunk_def newBlob_def)
qed

subsection \<open>Empty buffers\<close>

text \<open>
  C10. When the chunk buffer of a recorder is empty at its stop event, the handler of that
  recorder returns the state unchanged: no blob, no URL, no flag and no message.
\<close>

theorem onstop_empty_buffer:
  "(videoChunksRef st = [] \<longrightarrow> mediaRecorder_onstop env st = st)
   \<and> (audioChunksRef st = [] \<longrightarrow> audioRecorder_onstop env st = st)"
  by (simp add: mediaRecorder_onstop_def audioRecorder_onstop_def)

theorem onstop_empty_buffer_witness:
  "videoChunksRef initial_state = [] \<and> audioChunksRef initial_state = []
   \<and> mediaRecorder_onstop plainBrowser initial_state = initial_state
   \<and> audioRecorder_onstop plainBrowser initial_state = initial_state"
  using onstop_empty_buffer [of initial_state plainBrowser]
  by (simp add: initial_state_def)

subsection \<open>Container negotiation\<close>

lemma selectType_two:
  "selectType supported [a, b] current = (if supported a then a else if supported b then b else current)"
  by simp

lemma setupCamera_types:
  "videoMimeType (setupCamera env st) =
     (if loadFlacEncoder (loader_events env) = Pending then videoMimeType st
      else selectType (isTypeSupported env) videoTypes (videoMimeType st))"
  "audioMimeType (setupCamera env st) =
     (if loadFlacEncoder (loader_events env) = Pending then audioMimeType st
      else selectType (isTypeSupported env) audioTypes (audioMimeType st))"
  by (auto simp: setupCamera_def Let_def split: settled.splits sum.splits)

text \<open>
  C9. Once the encoder bootstrap has settled, \<open>setupCamera\<close> selects the first of
  \<open>video/webm\<close>, \<open>video/mp4\<close> and the first of \<open>audio/webm\<close>, \<open>audio/ogg\<close> that the
  runtime reports as supported, and leaves a type as it is when no candidate is supported;
  the initial types are \<open>video/webm\<close> and \<open>audio/webm\<close>, the first candidates.
\<close>

theorem container_negotiation:
  assumes "loadFlacEncoder (loader_events env) \<noteq> Pending"
  shows "videoMimeType (setupCamera env st) =
           (if isTypeSupported env ''video/webm'' then ''video/webm''
            else if isTypeSupported env ''video/mp4'' then ''video/mp4''
            else videoMimeType st)
         \<and> audioMimeType (setupCamera env st) =
           (if isTypeSupported env ''audio/webm'' then ''audio/webm''
            else if isTypeSupported env ''audio/ogg'' then ''audio/ogg''
            else audioMimeType st)
         \<and> videoMimeType initial_state = ''video/webm''
         \<and> audioMimeType initial_state = ''audio/webm''"
  using assms
  by (simp add: setupCamera_types videoTypes_def audioTypes_def initial_state_def)

lemma createWavBuffer_silence: "createWavBuffer silence = Some (wavHeader silence)"
  unfolding createWavBuffer_header by (simp add: silence_def writeFrames.simps)

lemma loadFlacEncoder_plain:
  "loadFlacEncoder (loader_events plainBrowser)
     = Rejected (JsError ''Error'' ''Failed to load FLAC encoder from all sources'')"
  by (simp add: plainBrowser_def loadFlacEncoder_def)

theorem container_negotiation_witness:
  "loadFlacEncoder (loader_events plainBrowser) \<noteq> Pending
   \<and> videoMimeType (setupCamera plainBrowser initial_state) = ''video/mp4''
   \<and> audioMimeType (setupCamera plainBrowser initial_state) = ''audio/webm''"
  using container_negotiation [of plainBrowser initial_state] loadFlacEncoder_plain
  by (simp add: plainBrowser_def initial_state_def)

subsection \<open>The audio conversion\<close>

lemma convertToFlac_fallback:
  assumes "conversionFallsBack env st audioBlob"
  shows "convertToFlac env st audioBlob
           = (st\<lparr>isUsingFallbackAudio := True\<rparr>, createWavFromAudio env audioBlob)"
proof (cases "convertToFlac_try env st audioBlob")
  case (Inl e)
  then show ?thesis by (simp add: convertToFlac_def)
next
  case (Inr r)
  then have "\<not> flacLoaded st
      \<or> (case window_Flac env of None \<Rightarrow> True | Some Flac \<Rightarrow> create_libflac_encoder Flac = None)"
    using assms by (simp add: conversionFallsBack_def)
  then have "r = (st\<lparr>isUsingFallbackAudio := True\<rparr>, createWavFromAudio env audioBlob)"
    using Inr
    by (auto simp: convertToFlac_try_def Let_def split: option.splits sum.splits if_splits)
  then show ?thesis using Inr by (simp add: convertToFlac_def)
qed

lemma zero_handle_throws:
  assumes "flacLoaded st" "window_Flac env = Some Flac" "create_libflac_encoder Flac = Some create"
    and "audioContext_error env = None" "arrayBuffer_error env audioBlob = None"
    and "decodeAudioData env (blob_bytes audioBlob) = Inr audioBuffer"
    and "create (sampleRate audioBuffer) (numberOfChannels audioBuffer) 16 5 0 True = Inr 0"
  shows "convertToFlac_try env st audioBlob = Inl (JsError ''Error'' ''Failed to create FLAC encoder'')"
  using assms by (simp add: convertToFlac_try_def arrayBuffer_def Let_def)

lemma bootstrap_rejected:
  assumes "loadFlacEncoder (loader_events env) = Rejected e"
  shows "flacLoaded (setupCamera env st) = flacLoaded st \<and> isUsingFallbackAudio (setupCamera env st)"
  using assms by (simp add: setupCamera_def Let_def split: sum.splits)

lemma audioRecorder_onstop_fallback:
  assumes "audioChunksRef st \<noteq> []"
    and "conversionFallsBack env (st\<lparr>isConverting := True\<rparr>) (newBlob (audioChunksRef st) (audioMimeType st))"
    and "createWavFromAudio env (newBlob (audioChunksRef st) (audioMimeType st)) = Inr wav"
  shows "audioRecorder_onstop env st =
           st\<lparr>isUsingFallbackAudio := True, audioURL := Some wav, audioRecorded := True, isConverting := False\<rparr>"
  using assms(1,3) convertToFlac_fallback [OF assms(2)]
  by (simp add: audioRecorder_onstop_def Let_def)

lemma flacLoaded_preserved:
  "flacLoaded (startRecording env st) = flacLoaded st"
  "flacLoaded (stopRecording env st) = flacLoaded st"
  "flacLoaded (mediaRecorder_ondataavailable data st) = flacLoaded st"
  "flacLoaded (audioRecorder_ondataavailable data st) = flacLoaded st"
  "flacLoaded (mediaRecorder_onstop env st) = flacLoaded st"
     apply (simp add: startRecording_def startRecording_try_def Let_def split: option.splits sum.splits list.splits prod.splits)
    apply (simp add: stopRecording_def Let_def split: sum.splits)
    apply (simp add: mediaRecorder_ondataavailable_def)
   apply (simp add: audioRecorder_ondataavailable_def)
  apply (simp add: mediaRecorder_onstop_def Let_def split: sum.splits)
  done

text \<open>
  C4. When the captured \<open>flacLoaded\<close> flag is false, or \<open>window.Flac\<close> or its
  \<open>create_libflac_encoder\<close> is absent, or the \<open>try\<close> block of \<open>convertToFlac\<close> throws,
  \<open>convertToFlac\<close> sets the fallback flag and returns what \<open>createWavFromAudio\<close> returns.
  A rejected bootstrap promise leaves \<open>flacLoaded\<close> false (and sets the fallback flag
  already in \<open>setupCamera\<close>); an encoder handle of 0 makes the \<open>try\<close> block throw. In
  each of these cases, when the WAV synthesis succeeds, the audio handler exposes the WAV
  blob and sets \<open>audioRecorded\<close>.
\<close>

theorem audio_conversion_falls_back_to_wav:
  "(conversionFallsBack env st audioBlob \<longrightarrow>
      convertToFlac env st audioBlob
        = (st\<lparr>isUsingFallbackAudio := True\<rparr>, createWavFromAudio env audioBlob))
   \<and> (loadFlacEncoder (loader_events env1) = Rejected e \<longrightarrow>
        \<not> flacLoaded (setupCamera env1 initial_state)
        \<and> isUsingFallbackAudio (setupCamera env1 initial_state))
   \<and> (flacLoaded st2 \<and> window_Flac env2 = Some Flac \<and> create_libflac_encoder Flac = Some create
        \<and> audioContext_error env2 = None \<and> arrayBuffer_error env2 blob2 = None
        \<and> decodeAudioData env2 (blob_bytes blob2) = Inr audioBuffer
        \<and> create (sampleRate audioBuffer) (numberOfChannels audioBuffer) 16 5 0 True = Inr 0 \<longrightarrow>
        conversionFallsBack env2 st2 blob2)
   \<and> (audioChunksRef st3 \<noteq> []
        \<and> conversionFallsBack env3 (st3\<lparr>isConverting := True\<rparr>)
             (newBlob (audioChunksRef st3) (audioMimeType st3))
        \<and> createWavFromAudio env3 (newBlob (audioChunksRef st3) (audioMimeType st3)) = Inr wav \<longrightarrow>
        audioRecorder_onstop env3 st3 =
          st3\<lparr>isUsingFallbackAudio := True, audioURL := Some wav, audioRecorded := True,
               isConverting := False\<rparr>)"
proof (intro conjI impI)
  assume "conversionFallsBack env st audioBlob"
  then show "convertToFlac env st audioBlob
        = (st\<lparr>isUsingFallbackAudio := True\<rparr>, createWavFromAudio env audioBlob)"
    by (rule convertToFlac_fallback)
next
  assume r: "loadFlacEncoder (loader_events env1) = Rejected e"
  show "\<not> flacLoaded (setupCamera env1 initial_state)"
    using bootstrap_rejected [OF r, of initial_state] by (simp add: initial_state_def)
  show "isUsingFallbackAudio (setupCamera env1 initial_state)"
    using bootstrap_rejected [OF r, of initial_state] by simp
next
  assume a: "flacLoaded st2 \<and> window_Flac env2 = Some Flac \<and> create_libflac_encoder Flac = Some create
        \<and> audioContext_error env2 = None \<and> arrayBuffer_error env2 blob2 = None
        \<and> decodeAudioData env2 (blob_bytes blob2) = Inr audioBuffer
        \<and> create (sampleRate audioBuffer) (numberOfChannels audioBuffer) 16 5 0 True = Inr 0"
  have "convertToFlac_try env2 st2 blob2 = Inl (JsError ''Error'' ''Failed to create FLAC encoder'')"
    using a zero_handle_throws [of st2 env2 Flac create blob2 audioBuffer] by blast
  then show "conversionFallsBack env2 st2 blob2" by (simp add: conversionFallsBack_def)
next
  assume a: "audioChunksRef st3 \<noteq> []
        \<and> conversionFallsBack env3 (st3\<lparr>isConverting := True\<rparr>)
             (newBlob (audioChunksRef st3) (audioMimeType st3))
        \<and> createWavFromAudio env3 (newBlob (audioChunksRef st3) (audioMimeType st3)) = Inr wav"
  show "audioRecorder_onstop env3 st3 =
          st3\<lparr>isUsingFallbackAudio := True, audioURL := Some wav, audioRecorded := True,
               isConverting := False\<rparr>"
    using a by (intro audioRecorder_onstop_fallback) simp_all
qed

theorem audio_conversion_falls_back_to_wav_witness:
  "conversionFallsBack plainBrowser initial_state (newBlob oneChunk ''audio/webm'')
   \<and> convertToFlac plainBrowser initial_state (newBlob oneChunk ''audio/webm'')
       = (initial_state\<lparr>isUsingFallbackAudio := True\<rparr>,
          Inr \<lparr>blob_bytes = wavHeader silence, blob_type = ''audio/wav''\<rparr>)
   \<and> loadFlacEncoder (loader_events plainBrowser)
       = Rejected (JsError ''Error'' ''Failed to load FLAC encoder from all sources'')
   \<and> \<not> flacLoaded (setupCamera plainBrowser initial_state)
   \<and> isUsingFallbackAudio (setupCamera plainBrowser initial_state)
   \<and> conversionFallsBack (plainBrowser\<lparr>window_Flac := Some zeroHandleFlac\<rparr>)
        (initial_state\<lparr>flacLoaded := True\<rparr>) (newBlob oneChunk ''audio/webm'')
   \<and> audioRecorder_onstop plainBrowser (initial_state\<lparr>audioChunksRef := oneChunk\<rparr>)
       = initial_state\<lparr>audioChunksRef := oneChunk, isUsingFallbackAudio := True,
           audioURL := Some \<lparr>blob_bytes = wavHeader silence, blob_type = ''audio/wav''\<rparr>,
           audioRecorded := True, isConverting := False\<rparr>"
proof -
  let ?b = "newBlob oneChunk ''audio/webm''"
  let ?wav = "\<lparr>blob_bytes = wavHeader silence, blob_type = ''audio/wav''\<rparr>"
  let ?env2 = "plainBrowser\<lparr>window_Flac := Some zeroHandleFlac\<rparr>"
  let ?st3 = "initial_state\<lparr>audioChunksRef := oneChunk\<rparr>"
  have w: "createWavFromAudio plainBrowser ?b = Inr ?wav"
    by (simp add: createWavFromAudio_def plainBrowser_def arrayBuffer_def createWavBuffer_silence)
  have f: "conversionFallsBack plainBrowser initial_state ?b"
    by (simp add: conversionFallsBack_def initial_state_def)
  have f3: "conversionFallsBack plainBrowser (?st3\<lparr>isConverting := True\<rparr>)
              (newBlob (audioChunksRef ?st3) (audioMimeType ?st3))"
    by (simp add: conversionFallsBack_def initial_state_def)
  have w3: "createWavFromAudio plainBrowser (newBlob (audioChunksRef ?st3) (audioMimeType ?st3)) = Inr ?wav"
    by (simp add: createWavFromAudio_def plainBrowser_def arrayBuffer_def createWavBuffer_silence)
  have c3: "audioChunksRef ?st3 \<noteq> []" by (simp add: oneChunk_def)
  have z: "flacLoaded (initial_state\<lparr>flacLoaded := True\<rparr>) \<and> window_Flac ?env2 = Some zeroHandleFlac
        \<and> create_libflac_encoder zeroHandleFlac = Some (\<lambda>rate channels bps level total verify. Inr 0)
        \<and> audioContext_error ?env2 = None \<and> arrayBuffer_error ?env2 ?b = None
        \<and> decodeAudioData ?env2 (blob_bytes ?b) = Inr silence
        \<and> (\<lambda>rate channels bps level total verify. Inr 0) (sampleRate silence) (numberOfChannels silence) 16 5 0 True
            = (Inr 0 :: js_error + nat)"
    by (simp add: plainBrowser_def zeroHandleFlac_def)
  note t = audio_conversion_falls_back_to_wav
    [of plainBrowser initial_state ?b plainBrowser _ "initial_state\<lparr>flacLoaded := True\<rparr>" ?env2
        zeroHandleFlac "\<lambda>rate channels bps level total verify. Inr 0" ?b silence ?st3 plainBrowser ?wav]
  show ?thesis
    using t f w loadFlacEncoder_plain z c3 f3 w3
    by (simp add: initial_state_def)
qed

end
